theory Spec2Isabelle
  imports Complex_Main "HOL-Library.Sublist"
begin

section \<open>The JavaScript runtime as the detectors see it\<close>

text \<open>
  Text is a list of bytes: a file's content and every generated string is its UTF-8
  encoding, so the ASCII part of a template is written as it stands in the source and a
  character beyond ASCII is the bytes of its encoding. Files are taken to hold valid
  UTF-8, which decoding and encoding leave as it is. What the code writes to the console
  is left out.

  A rejected promise or a thrown exception is the left summand of a sum type; the right
  summand is the value returned.
\<close>

datatype js_error = SystemError string | SyntaxError string

type_synonym 'a result = "js_error + 'a"

definition bindE :: "'a result \<Rightarrow> ('a \<Rightarrow> 'b result) \<Rightarrow> 'b result" where
  "bindE m f = (case m of Inl e \<Rightarrow> Inl e | Inr x \<Rightarrow> f x)"

definition try_catch :: "'a result \<Rightarrow> (js_error \<Rightarrow> 'a result) \<Rightarrow> 'a result" where
  "try_catch body handler = (case body of Inl e \<Rightarrow> handler e | Inr x \<Rightarrow> Inr x)"

text \<open>
  The values \<open>JSON.parse\<close> returns, and \<open>undefined\<close>. An object is the list of its own
  properties. A number is the rational value of the double, or an infinity (the parse of
  \<open>1e999\<close>); \<open>JSON.parse\<close> never returns NaN.
\<close>

datatype js_number = Finite rat | PosInfinity | NegInfinity

datatype js_value =
    Undefined
  | Null
  | JBool bool
  | JNum js_number
  | JStr string
  | JArr "js_value list"
  | JObj "(string \<times> js_value) list"

fun truthy :: "js_value \<Rightarrow> bool" where
  "truthy Undefined = False"
| "truthy Null = False"
| "truthy (JBool b) = b"
| "truthy (JNum n) = (n \<noteq> Finite 0)"
| "truthy (JStr s) = (s \<noteq> [])"
| "truthy (JArr xs) = True"
| "truthy (JObj kvs) = True"

text \<open>
  \<open>v.k\<close> for a value that is neither \<open>null\<close> nor \<open>undefined\<close> and a name \<open>k\<close> that no
  prototype defines and that is no index and not \<open>length\<close> (the detectors read
  \<open>dependencies\<close>, \<open>devDependencies\<close>, \<open>scripts\<close>, \<open>build\<close> and package names): an object
  gives its own property, every other value gives \<open>undefined\<close>.
\<close>

fun get_prop :: "js_value \<Rightarrow> string \<Rightarrow> js_value" where
  "get_prop (JObj kvs) k = (case map_of kvs k of Some v \<Rightarrow> v | None \<Rightarrow> Undefined)"
| "get_prop v k = Undefined"

text \<open>Optional chaining \<open>v?.k\<close>.\<close>

definition opt_chain :: "js_value \<Rightarrow> string \<Rightarrow> js_value" where
  "opt_chain v k = (if v = Undefined \<or> v = Null then Undefined else get_prop v k)"

text \<open>\<open>a || b\<close>.\<close>

definition js_or :: "js_value \<Rightarrow> js_value \<Rightarrow> js_value" where
  "js_or a b = (if truthy a then a else b)"

text \<open>
  The own enumerable properties an object spread \<open>{...v}\<close> copies. An array and a string
  contribute index keys only, which no lookup of the detectors names; they are left out.
\<close>

fun spread :: "js_value \<Rightarrow> (string \<times> js_value) list" where
  "spread (JObj kvs) = kvs"
| "spread v = []"

text \<open>
  What \<open>fs.stat\<close> and \<open>fs.readdir\<close> (with \<open>withFileTypes\<close>) return, as far as the code reads
  them.
\<close>

record Stats =
  st_size :: nat
  st_isDirectory :: bool

record Dirent =
  d_name :: string
  d_isFile :: bool

text \<open>
  The runtime of one call on an unchanged directory: Node's \<open>path.join\<close>, the four
  \<open>fs.promises\<close> operations the code calls (\<open>fs_readdir\<close> is the recursive listing with
  file types, \<open>fs_readFile\<close> reads as UTF-8), \<open>JSON.parse\<close>, the conversion of a value
  to a string that a template literal applies, and \<open>new Date().toISOString()\<close>.
\<close>

record runtime =
  path_join :: "string \<Rightarrow> string list \<Rightarrow> string"
  fs_access :: "string \<Rightarrow> unit result"
  fs_stat :: "string \<Rightarrow> Stats result"
  fs_readFile :: "string \<Rightarrow> string result"
  fs_readdir :: "string \<Rightarrow> Dirent list result"
  JSON_parse :: "string \<Rightarrow> js_value result"
  ToString :: "js_value \<Rightarrow> string"
  now_iso :: string

section \<open>File utility functions (src/utils/file.ts)\<close>

definition defaultMaxSize :: nat where
  "defaultMaxSize = 10 * 1024 * 1024"

text \<open>
  \<open>safeReadFile\<close>: the whole body is inside \<open>try\<close>; \<open>None\<close> is \<open>null\<close>. Where the code
  tests \<open>!content\<close>, \<open>null\<close> and the empty string are the two falsy contents.
\<close>

definition safeReadFile :: "runtime \<Rightarrow> string \<Rightarrow> nat \<Rightarrow> string option result" where
  "safeReadFile rt filePath maxSize =
     try_catch
       (bindE (fs_access rt filePath) (\<lambda>_.
        bindE (fs_stat rt filePath) (\<lambda>stats.
        if st_size stats > maxSize then Inr None
        else bindE (fs_readFile rt filePath) (\<lambda>s. Inr (Some s)))))
       (\<lambda>error. Inr None)"

definition fileExists :: "runtime \<Rightarrow> string \<Rightarrow> bool result" where
  "fileExists rt filePath =
     try_catch (bindE (fs_access rt filePath) (\<lambda>_. Inr True)) (\<lambda>error. Inr False)"

definition readJsonFile :: "runtime \<Rightarrow> string \<Rightarrow> js_value result" where
  "readJsonFile rt filePath =
     bindE (safeReadFile rt filePath defaultMaxSize) (\<lambda>content.
     case content of
       None \<Rightarrow> Inr Null
     | Some s \<Rightarrow>
         if s = [] then Inr Null
         else try_catch (JSON_parse rt s) (\<lambda>error. Inr Null))"

definition readPackageJson :: "runtime \<Rightarrow> string \<Rightarrow> js_value result" where
  "readPackageJson rt projectPath =
     readJsonFile rt (path_join rt projectPath [''package.json''])"

section \<open>The two regular expressions\<close>

text \<open>
  The code points \<open>\\s\<close> matches, as UTF-8: tab, line feed, vertical tab, form feed,
  carriage return, space, U+00A0, U+1680, U+2000 to U+200A, U+2028, U+2029, U+202F,
  U+205F, U+3000 and U+FEFF.
\<close>

definition js_whitespace :: "string list" where
  "js_whitespace =
    [[CHR 0x09], [CHR 0x0A], [CHR 0x0B], [CHR 0x0C], [CHR 0x0D], [CHR 0x20],
     [CHR 0xC2, CHR 0xA0],
     [CHR 0xE1, CHR 0x9A, CHR 0x80],
     [CHR 0xE2, CHR 0x80, CHR 0x80], [CHR 0xE2, CHR 0x80, CHR 0x81],
     [CHR 0xE2, CHR 0x80, CHR 0x82], [CHR 0xE2, CHR 0x80, CHR 0x83],
     [CHR 0xE2, CHR 0x80, CHR 0x84], [CHR 0xE2, CHR 0x80, CHR 0x85],
     [CHR 0xE2, CHR 0x80, CHR 0x86], [CHR 0xE2, CHR 0x80, CHR 0x87],
     [CHR 0xE2, CHR 0x80, CHR 0x88], [CHR 0xE2, CHR 0x80, CHR 0x89],
     [CHR 0xE2, CHR 0x80, CHR 0x8A],
     [CHR 0xE2, CHR 0x80, CHR 0xA8], [CHR 0xE2, CHR 0x80, CHR 0xA9],
     [CHR 0xE2, CHR 0x80, CHR 0xAF],
     [CHR 0xE2, CHR 0x81, CHR 0x9F],
     [CHR 0xE3, CHR 0x80, CHR 0x80],
     [CHR 0xEF, CHR 0xBB, CHR 0xBF]]"

definition is_quote :: "char \<Rightarrow> bool" where
  "is_quote c = (c = CHR 0x27 \<or> c = CHR 0x22)"

text \<open>A literal at the start of the text: the rest after it, if it is there.\<close>

fun strip_prefix :: "string \<Rightarrow> string \<Rightarrow> string option" where
  "strip_prefix [] s = Some s"
| "strip_prefix (x # xs) [] = None"
| "strip_prefix (x # xs) (c # cs) = (if x = c then strip_prefix xs cs else None)"

text \<open>The number of bytes of the white-space code point the text starts with, or 0.\<close>

definition ws_len :: "string \<Rightarrow> nat" where
  "ws_len s = (case find (\<lambda>w. prefix w s) js_whitespace of None \<Rightarrow> 0 | Some w \<Rightarrow> length w)"

text \<open>
  \<open>\\s*\<close> is greedy, and what follows it in both patterns (a colon, a quote) is no white
  space, so taking all the white space there is is the only way to match.
\<close>

fun skip_ws :: "string \<Rightarrow> string" where
  "skip_ws [] = []"
| "skip_ws (c # cs) =
     (case ws_len (c # cs) of 0 \<Rightarrow> c # cs | Suc n \<Rightarrow> skip_ws (drop n cs))"

text \<open>\<open>output\\s*:\\s*['"]export['"]\<close> at the start of the text.\<close>

definition export_at :: "string \<Rightarrow> bool" where
  \<open>export_at s =
     (case strip_prefix ''output'' s of None \<Rightarrow> False | Some r1 \<Rightarrow>
      (case strip_prefix '':'' (skip_ws r1) of None \<Rightarrow> False | Some r2 \<Rightarrow>
       (case skip_ws r2 of [] \<Rightarrow> False | q1 # r3 \<Rightarrow>
          is_quote q1 \<and>
          (case strip_prefix ''export'' r3 of None \<Rightarrow> False | Some r4 \<Rightarrow>
           (case r4 of [] \<Rightarrow> False | q2 # r5 \<Rightarrow> is_quote q2)))))\<close>

text \<open>
  \<open>outDir\\s*:\\s*['"]([^'"]+)['"]\<close> at the start of the text, giving the group. The group
  is greedy and the closing quote is the first character it cannot take.
\<close>

definition outDir_at :: "string \<Rightarrow> string option" where
  \<open>outDir_at s =
     (case strip_prefix ''outDir'' s of None \<Rightarrow> None | Some r1 \<Rightarrow>
      (case strip_prefix '':'' (skip_ws r1) of None \<Rightarrow> None | Some r2 \<Rightarrow>
       (case skip_ws r2 of [] \<Rightarrow> None | q1 # r3 \<Rightarrow>
          if \<not> is_quote q1 then None
          else (let dir = takeWhile (\<lambda>c. \<not> is_quote c) r3 in
                if dir = [] then None
                else (case dropWhile (\<lambda>c. \<not> is_quote c) r3 of
                        [] \<Rightarrow> None
                      | q2 # r5 \<Rightarrow> Some dir)))))\<close>

text \<open>
  An unanchored pattern is tried at every position from the left: \<open>regex_test\<close> is
  \<open>RegExp.prototype.test\<close>, \<open>regex_match\<close> is \<open>String.prototype.match\<close> reduced to the
  first match's result.
\<close>

fun regex_test :: "(string \<Rightarrow> bool) \<Rightarrow> string \<Rightarrow> bool" where
  "regex_test pat [] = pat []"
| "regex_test pat (c # cs) = (pat (c # cs) \<or> regex_test pat cs)"

fun regex_match :: "(string \<Rightarrow> 'a option) \<Rightarrow> string \<Rightarrow> 'a option" where
  "regex_match pat [] = pat []"
| "regex_match pat (c # cs) =
     (case pat (c # cs) of Some r \<Rightarrow> Some r | None \<Rightarrow> regex_match pat cs)"

section \<open>Project information (src/types/index.ts)\<close>

datatype FrameworkType = vite | nextjs | cra | unknown

datatype UILibrary = React | Vue | Svelte | Angular | UnknownLibrary

datatype RouterType = App | Pages | UnknownRouter

text \<open>
  \<open>version\<close> and \<open>buildCommand\<close> hold what the manifest holds under the name, whatever its
  type. The \<open>framework\<close> tag of the source is the constructor of \<open>AnyProjectInfo\<close>.
\<close>

record ProjectInfo =
  version :: js_value
  buildCommand :: js_value
  buildOutputDir :: string

record ViteProjectInfo = ProjectInfo +
  uiLibrary :: UILibrary
  viteConfigPath :: "string option"
  hasReactRouter :: bool
  hasVueRouter :: bool

record NextJsProjectInfo = ProjectInfo +
  routerType :: RouterType
  hasApiRoutes :: bool
  isStaticExport :: bool

record CRAProjectInfo = ProjectInfo +
  craHasReactRouter :: bool

datatype AnyProjectInfo =
    ViteProject ViteProjectInfo
  | NextJsProject NextJsProjectInfo
  | CRAProject CRAProjectInfo

fun framework :: "AnyProjectInfo \<Rightarrow> FrameworkType" where
  "framework (ViteProject p) = vite"
| "framework (NextJsProject p) = nextjs"
| "framework (CRAProject p) = cra"

fun common :: "AnyProjectInfo \<Rightarrow> ProjectInfo" where
  "common (ViteProject p) = ProjectInfo.truncate p"
| "common (NextJsProject p) = ProjectInfo.truncate p"
| "common (CRAProject p) = ProjectInfo.truncate p"

section \<open>The Next.js detector (src/detectors/nextjs-detector.ts)\<close>

text \<open>\<open>await a || await b\<close>: the second operand runs only when the first is false.\<close>

definition orE :: "bool result \<Rightarrow> bool result \<Rightarrow> bool result" where
  "orE a b = bindE a (\<lambda>x. if x then Inr True else b)"

definition isDirectory :: "runtime \<Rightarrow> string \<Rightarrow> bool result" where
  "isDirectory rt dirPath =
     try_catch (bindE (fs_stat rt dirPath) (\<lambda>stats. Inr (st_isDirectory stats)))
       (\<lambda>error. Inr False)"

definition detectRouterType :: "runtime \<Rightarrow> string \<Rightarrow> RouterType result" where
  "detectRouterType rt projectPath =
     (let appDirPath = path_join rt projectPath [''app''];
          pagesDirPath = path_join rt projectPath [''pages''];
          srcAppDirPath = path_join rt projectPath [''src'', ''app''];
          srcPagesDirPath = path_join rt projectPath [''src'', ''pages'']
      in bindE (orE (isDirectory rt appDirPath) (isDirectory rt srcAppDirPath)) (\<lambda>hasAppDir.
         bindE (orE (isDirectory rt pagesDirPath) (isDirectory rt srcPagesDirPath)) (\<lambda>hasPagesDir.
         if hasAppDir then Inr App
         else if hasPagesDir then Inr Pages
         else Inr UnknownRouter)))"

definition hasRouteFiles :: "runtime \<Rightarrow> string \<Rightarrow> bool result" where
  "hasRouteFiles rt dirPath =
     try_catch
       (bindE (fs_readdir rt dirPath) (\<lambda>entries.
          Inr (list_ex (\<lambda>entry. d_isFile entry \<and>
                 (d_name entry = ''route.ts'' \<or> d_name entry = ''route.js'')) entries)))
       (\<lambda>error. Inr False)"

definition detectApiRoutes :: "runtime \<Rightarrow> string \<Rightarrow> RouterType \<Rightarrow> bool result" where
  "detectApiRoutes rt projectPath rType =
     (if rType = Pages then
        (let pagesApiPath = path_join rt projectPath [''pages'', ''api''];
             srcPagesApiPath = path_join rt projectPath [''src'', ''pages'', ''api'']
         in orE (isDirectory rt pagesApiPath) (isDirectory rt srcPagesApiPath))
      else if rType = App then
        (let appDirPath = path_join rt projectPath [''app''];
             srcAppDirPath = path_join rt projectPath [''src'', ''app'']
         in bindE (hasRouteFiles rt appDirPath) (\<lambda>hasApiInApp.
            bindE (hasRouteFiles rt srcAppDirPath) (\<lambda>hasApiInSrcApp.
            Inr (hasApiInApp \<or> hasApiInSrcApp))))
      else Inr False)"

definition nextConfigNames :: "string list" where
  "nextConfigNames = [''next.config.js'', ''next.config.mjs'', ''next.config.ts'']"

text \<open>The \<open>for\<close> loop of \<open>detectStaticExport\<close> over the names still to try.\<close>

fun staticExportLoop :: "runtime \<Rightarrow> string \<Rightarrow> string list \<Rightarrow> bool result" where
  "staticExportLoop rt projectPath [] = Inr False"
| "staticExportLoop rt projectPath (name # names) =
     (let configPath = path_join rt projectPath [name]
      in bindE (safeReadFile rt configPath defaultMaxSize) (\<lambda>configContent.
         case configContent of
           None \<Rightarrow> staticExportLoop rt projectPath names
         | Some s \<Rightarrow>
             if s = [] then staticExportLoop rt projectPath names
             else if regex_test export_at s then Inr True
             else staticExportLoop rt projectPath names))"

definition detectStaticExport :: "runtime \<Rightarrow> string \<Rightarrow> bool result" where
  "detectStaticExport rt projectPath = staticExportLoop rt projectPath nextConfigNames"

definition detectNextJsProject :: "runtime \<Rightarrow> string \<Rightarrow> NextJsProjectInfo option result" where
  "detectNextJsProject rt projectPath =
     bindE (readPackageJson rt projectPath) (\<lambda>packageJson.
     if \<not> truthy packageJson then Inr None
     else
       (let nextVersion =
              js_or (opt_chain (get_prop packageJson ''dependencies'') ''next'')
                    (opt_chain (get_prop packageJson ''devDependencies'') ''next'')
        in if \<not> truthy nextVersion then Inr None
           else
             bindE (detectRouterType rt projectPath) (\<lambda>rType.
             bindE (detectApiRoutes rt projectPath rType) (\<lambda>apiRoutes.
             bindE (detectStaticExport rt projectPath) (\<lambda>staticExport.
             (let bCommand =
                    js_or (opt_chain (get_prop packageJson ''scripts'') ''build'')
                          (JStr ''next build'');
                  bOutputDir = (if staticExport then ''out'' else ''.next'')
              in Inr (Some \<lparr>version = nextVersion,
                            buildCommand = bCommand,
                            buildOutputDir = bOutputDir,
                            routerType = rType,
                            hasApiRoutes = apiRoutes,
                            isStaticExport = staticExport\<rparr>)))))))"

section \<open>The Vite detector (src/detectors/vite-detector.ts)\<close>

text \<open>
  \<open>deps\<close> is \<open>{...dependencies, ...devDependencies}\<close>: a name in both carries the value of
  \<open>devDependencies\<close>.
\<close>

definition detectUILibrary :: "js_value \<Rightarrow> UILibrary" where
  "detectUILibrary packageJson =
     (let deps = map_of (spread (get_prop packageJson ''dependencies'')) ++
                 map_of (spread (get_prop packageJson ''devDependencies''));
          has = (\<lambda>k. case deps k of None \<Rightarrow> False | Some v \<Rightarrow> truthy v)
      in if has ''react'' then React
         else if has ''vue'' then Vue
         else if has ''svelte'' then Svelte
         else if has ''@angular/core'' then Angular
         else UnknownLibrary)"

definition viteConfigNames :: "string list" where
  "viteConfigNames = [''vite.config.ts'', ''vite.config.js'', ''vite.config.mjs'', ''vite.config.cjs'']"

fun findViteConfigLoop :: "runtime \<Rightarrow> string \<Rightarrow> string list \<Rightarrow> string option result" where
  "findViteConfigLoop rt projectPath [] = Inr None"
| "findViteConfigLoop rt projectPath (name # names) =
     (let configPath = path_join rt projectPath [name]
      in bindE (fileExists rt configPath) (\<lambda>ex.
         if ex then Inr (Some name) else findViteConfigLoop rt projectPath names))"

definition findViteConfig :: "runtime \<Rightarrow> string \<Rightarrow> string option result" where
  "findViteConfig rt projectPath = findViteConfigLoop rt projectPath viteConfigNames"

definition detectBuildOutputDir :: "runtime \<Rightarrow> string \<Rightarrow> string option \<Rightarrow> string result" where
  "detectBuildOutputDir rt projectPath vConfigPath =
     (let outputDir = ''dist''
      in case vConfigPath of
           None \<Rightarrow> Inr outputDir
         | Some cfg \<Rightarrow>
             if cfg = [] then Inr outputDir
             else
               (let configPath = path_join rt projectPath [cfg]
                in bindE (safeReadFile rt configPath defaultMaxSize) (\<lambda>configContent.
                   case configContent of
                     None \<Rightarrow> Inr outputDir
                   | Some s \<Rightarrow>
                       if s = [] then Inr outputDir
                       else (case regex_match outDir_at s of
                               None \<Rightarrow> Inr outputDir
                             | Some group1 \<Rightarrow>
                                 if group1 \<noteq> [] then Inr group1 else Inr outputDir))))"

definition detectViteProject :: "runtime \<Rightarrow> string \<Rightarrow> ViteProjectInfo option result" where
  "detectViteProject rt projectPath =
     bindE (readPackageJson rt projectPath) (\<lambda>packageJson.
     if \<not> truthy packageJson then Inr None
     else
       (let dependencies = get_prop packageJson ''dependencies'';
            devDependencies = get_prop packageJson ''devDependencies'';
            viteVersion = js_or (opt_chain dependencies ''vite'') (opt_chain devDependencies ''vite'')
        in if \<not> truthy viteVersion then Inr None
           else
             (let library = detectUILibrary packageJson
              in bindE (findViteConfig rt projectPath) (\<lambda>vConfigPath.
                 bindE (detectBuildOutputDir rt projectPath vConfigPath) (\<lambda>bOutputDir.
                 (let reactRouter = truthy
                        (js_or (js_or (js_or (opt_chain dependencies ''react-router-dom'')
                                             (opt_chain devDependencies ''react-router-dom''))
                                      (opt_chain dependencies ''react-router''))
                               (opt_chain devDependencies ''react-router''));
                      vueRouter = truthy
                        (js_or (opt_chain dependencies ''vue-router'')
                               (opt_chain devDependencies ''vue-router''));
                      bCommand =
                        js_or (opt_chain (get_prop packageJson ''scripts'') ''build'')
                              (JStr ''vite build'')
                  in Inr (Some \<lparr>version = viteVersion,
                                buildCommand = bCommand,
                                buildOutputDir = bOutputDir,
                                uiLibrary = library,
                                viteConfigPath = vConfigPath,
                                hasReactRouter = reactRouter,
                                hasVueRouter = vueRouter\<rparr>)))))))"

section \<open>Text helpers\<close>

text \<open>
  The characters beyond ASCII of the generated texts, as UTF-8: the warning sign U+26A0
  followed by the variation selector U+FE0F, the check mark U+2713, the cross mark
  U+274C and the place-of-interest sign U+2318.
\<close>

definition warning_sign :: string where
  "warning_sign = [CHR 0xE2, CHR 0x9A, CHR 0xA0, CHR 0xEF, CHR 0xB8, CHR 0x8F]"

definition check_mark :: string where
  "check_mark = [CHR 0xE2, CHR 0x9C, CHR 0x93]"

definition cross_mark :: string where
  "cross_mark = [CHR 0xE2, CHR 0x9D, CHR 0x8C]"

definition command_key :: string where
  "command_key = [CHR 0xE2, CHR 0x8C, CHR 0x98]"

text \<open>What a template literal puts for \<open>${v}\<close>: a string as it is, another value converted.\<close>

definition interpolate :: "runtime \<Rightarrow> js_value \<Rightarrow> string" where
  "interpolate rt v = (case v of JStr s \<Rightarrow> s | _ \<Rightarrow> ToString rt v)"

text \<open>\<open>toUpperCase\<close>, on the ASCII names it is applied to.\<close>

definition toUpperCase :: "string \<Rightarrow> string" where
  "toUpperCase s =
     map (\<lambda>c. if (97::nat) \<le> of_char c \<and> of_char c \<le> (122::nat)
                then char_of (of_char c - (32::nat)) else c) s"

fun frameworkName :: "FrameworkType \<Rightarrow> string" where
  "frameworkName vite = ''vite''"
| "frameworkName nextjs = ''nextjs''"
| "frameworkName cra = ''cra''"
| "frameworkName unknown = ''unknown''"

fun uiLibraryName :: "UILibrary \<Rightarrow> string" where
  "uiLibraryName React = ''react''"
| "uiLibraryName Vue = ''vue''"
| "uiLibraryName Svelte = ''svelte''"
| "uiLibraryName Angular = ''angular''"
| "uiLibraryName UnknownLibrary = ''unknown''"

text \<open>\<open>Array.prototype.join\<close> on strings.\<close>

fun join :: "string \<Rightarrow> string list \<Rightarrow> string" where
  "join sep [] = []"
| "join sep [x] = x"
| "join sep (x # y # ys) = x @ sep @ join sep (y # ys)"

section \<open>The detect tool (dist/tools/detect-framework.js)\<close>

record ContentItem =
  item_type :: string
  item_text :: string

record ToolResult =
  content :: "ContentItem list"

definition textResult :: "string \<Rightarrow> ToolResult" where
  "textResult t = \<lparr>content = [\<lparr>item_type = ''text'', item_text = t\<rparr>]\<rparr>"

definition isCapacitorReady :: "AnyProjectInfo \<Rightarrow> bool" where
  "isCapacitorReady projectInfo =
     (case projectInfo of
        NextJsProject p \<Rightarrow> isStaticExport p \<and> \<not> hasApiRoutes p
      | _ \<Rightarrow> True)"

text \<open>The text returned when both detectors return \<open>null\<close>.\<close>

definition noFrameworkText :: "string \<Rightarrow> string" where
  \<open>noFrameworkText path =
     cross_mark @ '' No supported framework detected in: '' @ path @ ''\<newline>'' @
     ''\<newline>'' @
     ''Supported frameworks:\<newline>'' @
     ''- Vite (React, Vue, Svelte, Angular)\<newline>'' @
     ''- Next.js\<newline>'' @
     ''- Create React App (coming soon)\<newline>'' @
     ''\<newline>'' @
     ''Please ensure:\<newline>'' @
     ''- package.json exists\<newline>'' @
     ''- Framework is installed in dependencies or devDependencies''\<close>

text \<open>
  The text of the \<open>catch\<close> branch: \<open>error.message\<close> of what was thrown.
\<close>

definition errorText :: "js_error \<Rightarrow> string" where
  \<open>errorText error =
     cross_mark @ '' Error detecting framework: '' @
     (case error of SystemError message \<Rightarrow> message | SyntaxError message \<Rightarrow> message)\<close>

text \<open>The text of a detection, built up as the source appends to \<open>result\<close>.\<close>

definition detectionText :: "runtime \<Rightarrow> AnyProjectInfo \<Rightarrow> string" where
  \<open>detectionText rt projectInfo =
     (let info = common projectInfo;
          result0 =
            check_mark @ '' Framework detected: **'' @
            toUpperCase (frameworkName (framework projectInfo)) @ ''**\<newline>\<newline>'';
          result1 = result0 @ ''**Version:** '' @ interpolate rt (version info) @ ''\<newline>'';
          result2 =
            result1 @ ''**Build Command:** `'' @ interpolate rt (buildCommand info) @
            ''`\<newline>'';
          result3 =
            result2 @ ''**Build Output:** `'' @ buildOutputDir info @ ''`\<newline>\<newline>'';
          result4 =
            (case projectInfo of
               ViteProject p \<Rightarrow>
                 result3 @
                 ''**UI Library:** '' @ uiLibraryName (uiLibrary p) @ ''\<newline>'' @
                 ''**Vite Config:** '' @
                 (case viteConfigPath p of
                    None \<Rightarrow> ''Not found''
                  | Some c \<Rightarrow> if c = [] then ''Not found'' else c) @ ''\<newline>'' @
                 (if hasReactRouter p then ''**React Router:** Yes\<newline>'' else []) @
                 (if hasVueRouter p then ''**Vue Router:** Yes\<newline>'' else [])
             | _ \<Rightarrow> result3);
          result5 =
            (case projectInfo of
               NextJsProject p \<Rightarrow>
                 result4 @
                 ''**Router Type:** '' @
                 (if routerType p = App then ''App Router (app/)''
                  else if routerType p = Pages then ''Pages Router (pages/)''
                  else ''Unknown'') @ ''\<newline>'' @
                 ''**API Routes:** '' @
                 (if hasApiRoutes p then ''Yes '' @ warning_sign else ''No'') @ ''\<newline>'' @
                 ''**Static Export:** '' @
                 (if isStaticExport p then ''Enabled '' @ check_mark
                  else ''Not configured '' @ warning_sign) @ ''\<newline>\<newline>'' @
                 (if \<not> isStaticExport p then
                    ''> '' @ warning_sign @
                    '' **Important:** Next.js requires static export for Capacitor.\<newline>'' @
                    ''> Add `output: 'export'` to next.config.js\<newline>\<newline>''
                  else []) @
                 (if hasApiRoutes p then
                    ''> '' @ warning_sign @
                    '' **Warning:** API routes detected. These won't work with static export.\<newline>'' @
                    ''> Consider moving to external backend (Supabase, Firebase, etc.)\<newline>\<newline>''
                  else [])
             | _ \<Rightarrow> result4)
      in result5 @ ''\<newline>**Capacitor Compatibility:** '' @
         (if isCapacitorReady projectInfo then check_mark @ '' Ready''
          else warning_sign @ '' Needs configuration''))\<close>

definition detectFrameworkTool :: "runtime \<Rightarrow> string \<Rightarrow> ToolResult result" where
  "detectFrameworkTool rt path =
     try_catch
       (bindE (detectViteProject rt path) (\<lambda>viteProject.
        bindE (detectNextJsProject rt path) (\<lambda>nextjsProject.
        (let projectInfo =
               (case viteProject of
                  Some v \<Rightarrow> Some (ViteProject v)
                | None \<Rightarrow> map_option NextJsProject nextjsProject)
         in case projectInfo of
              None \<Rightarrow> Inr (textResult (noFrameworkText path))
            | Some info \<Rightarrow> Inr (textResult (detectionText rt info))))))
       (\<lambda>error. Inr (textResult (errorText error)))"

section \<open>The migration specification generator (src/generators/spec-generator.ts)\<close>

record GenerateSpecOptions =
  projectPath :: string
  appName :: string
  bundleId :: string
  primaryColor :: "string option"

definition generateHeader :: "runtime \<Rightarrow> string \<Rightarrow> AnyProjectInfo \<Rightarrow> string" where
  \<open>generateHeader rt name projectInfo =
     ''# iOS Migration Specification: '' @
     name @
     ''\<newline>'' @
     ''\<newline>'' @
     ''Generated: '' @
     now_iso rt @
     ''\<newline>'' @
     ''Framework: '' @
     toUpperCase (frameworkName (framework projectInfo)) @
     ''\<newline>'' @
     ''Version: '' @
     interpolate rt (version (common projectInfo)) @
     ''\<newline>'' @
     ''\<newline>'' @
     ''---''\<close>

text \<open>
  \<open>overview\<close> after its declaration, then after each of the three \<open>if\<close> statements; the
  tests on \<open>framework\<close> exclude one another.
\<close>

definition generateProjectOverview :: "runtime \<Rightarrow> AnyProjectInfo \<Rightarrow> string" where
  \<open>generateProjectOverview rt projectInfo =
     (let overview =
            ''## Project Overview\<newline>'' @
            ''\<newline>'' @
            ''- **Framework**: '' @
            frameworkName (framework projectInfo) @
            ''\<newline>'' @
            ''- **Version**: '' @
            interpolate rt (version (common projectInfo)) @
            ''\<newline>'' @
            ''- **Build Command**: `'' @
            interpolate rt (buildCommand (common projectInfo)) @
            ''`\<newline>'' @
            ''- **Build Output**: `'' @
            buildOutputDir (common projectInfo) @
            ''`''
      in case projectInfo of
           ViteProject p \<Rightarrow>
             overview @
                ''\<newline>'' @
                ''- **UI Library**: '' @
                uiLibraryName (uiLibrary p) @
                ''\<newline>'' @
                ''- **React Router**: '' @
                (if hasReactRouter p then ''Yes'' else ''No'') @
                ''\<newline>'' @
                ''- **Vue Router**: '' @
                (if hasVueRouter p then ''Yes'' else ''No'')
         | NextJsProject p \<Rightarrow>
             overview @
                ''\<newline>'' @
                ''- **Router Type**: '' @
                (if routerType p = App then ''App Router''
                 else if routerType p = Pages then ''Pages Router''
                 else ''Unknown'') @
                ''\<newline>'' @
                ''- **API Routes**: '' @
                (if hasApiRoutes p then ''Yes ('' @ warning_sign @ '' Requires backend setup)'' else ''No'') @
                ''\<newline>'' @
                ''- **Static Export**: '' @
                (if isStaticExport p then ''Yes '' @ check_mark
                 else ''No ('' @ warning_sign @ '' Required for Capacitor)'')
         | CRAProject p \<Rightarrow>
             overview @
                ''\<newline>'' @
                ''- **React Router**: '' @
                (if craHasReactRouter p then ''Yes'' else ''No''))\<close>

definition generateCapacitorSetup :: "AnyProjectInfo \<Rightarrow> string \<Rightarrow> string \<Rightarrow> string" where
  \<open>generateCapacitorSetup projectInfo name bundle =
     ''## Capacitor Setup\<newline>'' @
     ''\<newline>'' @
     ''### 1. Install Capacitor\<newline>'' @
     ''\<newline>'' @
     ''```bash\<newline>'' @
     ''npm install @capacitor/core @capacitor/cli\<newline>'' @
     ''npm install @capacitor/ios\<newline>'' @
     ''```\<newline>'' @
     ''\<newline>'' @
     ''### 2. Initialize Capacitor\<newline>'' @
     ''\<newline>'' @
     ''```bash\<newline>'' @
     ''npx cap init "'' @
     name @
     ''" "'' @
     bundle @
     ''" --web-dir="'' @
     buildOutputDir (common projectInfo) @
     ''"\<newline>'' @
     ''```\<newline>'' @
     ''\<newline>'' @
     ''### 3. Add iOS Platform\<newline>'' @
     ''\<newline>'' @
     ''```bash\<newline>'' @
     ''npx cap add ios\<newline>'' @
     ''```''\<close>

text \<open>What section 1 of the Next.js steps says when static export is enabled.\<close>

definition staticExportEnabledNote :: string where
  \<open>staticExportEnabledNote =
     check_mark @ '' Static export is already enabled.''\<close>

text \<open>The critical warning of section 1, for a project without static export.\<close>

definition staticExportCriticalWarning :: string where
  \<open>staticExportCriticalWarning =
     warning_sign @ '' **CRITICAL**: You must enable static export for Capacitor.''\<close>

text \<open>The instructions that follow the critical warning.\<close>

definition nextConfigInstructions :: string where
  \<open>nextConfigInstructions =
     ''Edit `next.config.js`:\<newline>'' @
     ''\<newline>'' @
     ''```javascript\<newline>'' @
     ''/** @type {import('next').NextConfig} */\<newline>'' @
     ''const nextConfig = {\<newline>'' @
     ''  output: 'export',\<newline>'' @
     ''  images: {\<newline>'' @
     ''    unoptimized: true, // Required for static export\<newline>'' @
     ''  },\<newline>'' @
     ''};\<newline>'' @
     ''\<newline>'' @
     ''module.exports = nextConfig;\<newline>'' @
     ''```\<newline>'' @
     ''\<newline>''\<close>

text \<open>The API routes warning of section 2.\<close>

definition apiRoutesWarning :: string where
  \<open>apiRoutesWarning =
     warning_sign @ '' **API Routes Detected**: API routes don't work with static export.\<newline>'' @
     ''Options:\<newline>'' @
     ''- Move API logic to external backend (Supabase, Firebase, etc.)\<newline>'' @
     ''- Use serverless functions (Vercel, Netlify)\<newline>'' @
     ''- Create separate backend service''\<close>

text \<open>What section 2 says when no API routes were detected.\<close>

definition noApiRoutesNote :: string where
  \<open>noApiRoutesNote =
     check_mark @ '' No API routes detected.''\<close>

text \<open>Section 3 for the App Router.\<close>

definition appRouterConsiderations :: string where
  \<open>appRouterConsiderations =
     ''\<newline>'' @
     ''### 3. App Router Considerations\<newline>'' @
     ''\<newline>'' @
     ''- Remove server components that use `fetch` at build time\<newline>'' @
     ''- Convert `generateStaticParams` for all dynamic routes\<newline>'' @
     ''- Use `getStaticProps` pattern with static data''\<close>

text \<open>Section 3 for the Pages Router.\<close>

definition pagesRouterConsiderations :: string where
  \<open>pagesRouterConsiderations =
     ''\<newline>'' @
     ''### 3. Pages Router Considerations\<newline>'' @
     ''\<newline>'' @
     ''- Replace `getServerSideProps` with `getStaticProps`\<newline>'' @
     ''- Ensure all dynamic routes have `getStaticPaths`\<newline>'' @
     ''- Remove API routes or move to external service''\<close>

definition generateNextJsSteps :: "AnyProjectInfo \<Rightarrow> string" where
  \<open>generateNextJsSteps projectInfo =
     (case projectInfo of
        NextJsProject p \<Rightarrow>
          ''## Next.js Specific Configuration\<newline>'' @
          ''\<newline>'' @
          ''### 1. Enable Static Export\<newline>'' @
          ''\<newline>'' @
          (if isStaticExport p then staticExportEnabledNote else staticExportCriticalWarning) @
          ''\<newline>'' @
          ''\<newline>'' @
          (if \<not> isStaticExport p then nextConfigInstructions else []) @
          ''### 2. Handle Dynamic Features\<newline>'' @
          ''\<newline>'' @
          (if hasApiRoutes p then apiRoutesWarning else noApiRoutesNote) @
          ''\<newline>'' @
          ''\<newline>'' @
          (if routerType p = App then appRouterConsiderations else []) @
          ''\<newline>'' @
          ''\<newline>'' @
          (if routerType p = Pages then pagesRouterConsiderations else [])
      | _ \<Rightarrow> [])\<close>

text \<open>The router configuration shown for React Router.\<close>

definition reactRouterSnippet :: string where
  \<open>reactRouterSnippet =
     ''**React Router detected**:\<newline>'' @
     ''```typescript\<newline>'' @
     ''import { BrowserRouter } from 'react-router-dom';\<newline>'' @
     ''\<newline>'' @
     ''// Use BrowserRouter (hash routing not needed for Capacitor)\<newline>'' @
     ''<BrowserRouter>\<newline>'' @
     ''  <App />\<newline>'' @
     ''</BrowserRouter>\<newline>'' @
     ''```''\<close>

text \<open>The router configuration shown for Vue Router.\<close>

definition vueRouterSnippet :: string where
  \<open>vueRouterSnippet =
     ''**Vue Router detected**:\<newline>'' @
     ''```typescript\<newline>'' @
     ''import { createRouter, createWebHistory } from 'vue-router';\<newline>'' @
     ''\<newline>'' @
     ''const router = createRouter({\<newline>'' @
     ''  history: createWebHistory(), // Use web history\<newline>'' @
     ''  routes,\<newline>'' @
     ''});\<newline>'' @
     ''```''\<close>

text \<open>\<open>s.split('.').pop()\<close>: what follows the last dot, or all of \<open>s\<close> without one.\<close>

definition lastDotPart :: "string \<Rightarrow> string" where
  "lastDotPart s = rev (takeWhile (\<lambda>c. c \<noteq> CHR 0x2E) (rev s))"

definition viteConfigExtension :: "string option \<Rightarrow> string" where
  "viteConfigExtension path =
     (case path of
        None \<Rightarrow> ''ts''
      | Some s \<Rightarrow> if lastDotPart s = [] then ''ts'' else lastDotPart s)"

definition generateViteSteps :: "AnyProjectInfo \<Rightarrow> string" where
  \<open>generateViteSteps projectInfo =
     (case projectInfo of
        ViteProject p \<Rightarrow>
          ''## Vite Specific Configuration\<newline>'' @
          ''\<newline>'' @
          ''### 1. Base Path Configuration\<newline>'' @
          ''\<newline>'' @
          ''Update `vite.config.'' @
          viteConfigExtension (viteConfigPath p) @
          ''`:\<newline>'' @
          ''\<newline>'' @
          ''```typescript\<newline>'' @
          ''export default defineConfig({\<newline>'' @
          ''  base: './', // Important for mobile\<newline>'' @
          ''  build: {\<newline>'' @
          ''    outDir: '' @ [CHR 0x27] @
          buildOutputDir p @
          [CHR 0x27] @ '',\<newline>'' @
          ''  },\<newline>'' @
          ''});\<newline>'' @
          ''```\<newline>'' @
          ''\<newline>'' @
          ''### 2. Environment Variables\<newline>'' @
          ''\<newline>'' @
          ''Vite uses `import.meta.env`:\<newline>'' @
          ''- Prefix with `VITE_` for client-side variables\<newline>'' @
          ''- Create `.env.production` for production builds\<newline>'' @
          ''\<newline>'' @
          ''### 3. Router Configuration\<newline>'' @
          ''\<newline>'' @
          (if hasReactRouter p then reactRouterSnippet else []) @
          ''\<newline>'' @
          ''\<newline>'' @
          (if hasVueRouter p then vueRouterSnippet else [])
      | _ \<Rightarrow> [])\<close>

text \<open>The router configuration shown for Create React App.\<close>

definition craRouterSnippet :: string where
  \<open>craRouterSnippet =
     ''### 3. Router Configuration\<newline>'' @
     ''\<newline>'' @
     ''```typescript\<newline>'' @
     ''import { BrowserRouter } from 'react-router-dom';\<newline>'' @
     ''\<newline>'' @
     ''<BrowserRouter>\<newline>'' @
     ''  <App />\<newline>'' @
     ''</BrowserRouter>\<newline>'' @
     ''```''\<close>

definition generateCRASteps :: "AnyProjectInfo \<Rightarrow> string" where
  \<open>generateCRASteps projectInfo =
     (case projectInfo of
        CRAProject p \<Rightarrow>
          ''## Create React App Configuration\<newline>'' @
          ''\<newline>'' @
          ''### 1. Environment Variables\<newline>'' @
          ''\<newline>'' @
          ''- Use `REACT_APP_` prefix for client-side variables\<newline>'' @
          ''- Create `.env.production` for production\<newline>'' @
          ''\<newline>'' @
          ''### 2. Homepage Configuration\<newline>'' @
          ''\<newline>'' @
          ''Update `package.json`:\<newline>'' @
          ''\<newline>'' @
          ''```json\<newline>'' @
          ''{\<newline>'' @
          ''  "homepage": "."\<newline>'' @
          ''}\<newline>'' @
          ''```\<newline>'' @
          ''\<newline>'' @
          (if craHasReactRouter p then craRouterSnippet else [])
      | _ \<Rightarrow> [])\<close>

definition generateFrameworkSpecificSteps :: "AnyProjectInfo \<Rightarrow> string" where
  "generateFrameworkSpecificSteps projectInfo =
     (if framework projectInfo = nextjs then generateNextJsSteps projectInfo
      else if framework projectInfo = vite then generateViteSteps projectInfo
      else if framework projectInfo = cra then generateCRASteps projectInfo
      else [])"

definition generateCommonIssues :: "AnyProjectInfo \<Rightarrow> string" where
  \<open>generateCommonIssues projectInfo =
     ''## Common Issues & Solutions\<newline>'' @
     ''\<newline>'' @
     ''### 1. CORS and API Calls\<newline>'' @
     ''\<newline>'' @
     warning_sign @ '' Mobile apps don't have CORS restrictions, but:\<newline>'' @
     ''- Use absolute URLs for API calls\<newline>'' @
     ''- Configure proper authentication headers\<newline>'' @
     ''- Test with actual backend endpoints\<newline>'' @
     ''\<newline>'' @
     ''### 2. Local Storage & Cookies\<newline>'' @
     ''\<newline>'' @
     check_mark @ '' Works normally in Capacitor\<newline>'' @
     ''- Consider using Capacitor Storage for sensitive data\<newline>'' @
     ''- `@capacitor/preferences` for persistent storage\<newline>'' @
     ''\<newline>'' @
     ''### 3. File Access & Camera\<newline>'' @
     ''\<newline>'' @
     ''Add Capacitor plugins as needed:\<newline>'' @
     ''\<newline>'' @
     ''```bash\<newline>'' @
     ''npm install @capacitor/camera @capacitor/filesystem\<newline>'' @
     ''```\<newline>'' @
     ''\<newline>'' @
     ''### 4. Deep Linking\<newline>'' @
     ''\<newline>'' @
     ''Configure URL schemes in `capacitor.config.ts`:\<newline>'' @
     ''\<newline>'' @
     ''```typescript\<newline>'' @
     ''{\<newline>'' @
     ''  server: {\<newline>'' @
     ''    androidScheme: 'https'' @ [CHR 0x27] @ ''\<newline>'' @
     ''  }\<newline>'' @
     ''}\<newline>'' @
     ''```\<newline>'' @
     ''\<newline>'' @
     ''### 5. Safe Area & Notch\<newline>'' @
     ''\<newline>'' @
     ''Add viewport meta tag and CSS:\<newline>'' @
     ''\<newline>'' @
     ''```css\<newline>'' @
     ''body {\<newline>'' @
     ''  padding: env(safe-area-inset-top) env(safe-area-inset-right)\<newline>'' @
     ''          env(safe-area-inset-bottom) env(safe-area-inset-left);\<newline>'' @
     ''}\<newline>'' @
     ''```''\<close>

definition generateBuildSteps :: "runtime \<Rightarrow> AnyProjectInfo \<Rightarrow> string" where
  \<open>generateBuildSteps rt projectInfo =
     ''## Build & Deploy Steps\<newline>'' @
     ''\<newline>'' @
     ''### 1. Build Web Assets\<newline>'' @
     ''\<newline>'' @
     ''```bash\<newline>'' @
     interpolate rt (buildCommand (common projectInfo)) @
     ''\<newline>'' @
     ''```\<newline>'' @
     ''\<newline>'' @
     ''### 2. Sync with Capacitor\<newline>'' @
     ''\<newline>'' @
     ''```bash\<newline>'' @
     ''npx cap sync ios\<newline>'' @
     ''```\<newline>'' @
     ''\<newline>'' @
     ''### 3. Open in Xcode\<newline>'' @
     ''\<newline>'' @
     ''```bash\<newline>'' @
     ''npx cap open ios\<newline>'' @
     ''```\<newline>'' @
     ''\<newline>'' @
     ''### 4. Configure in Xcode\<newline>'' @
     ''\<newline>'' @
     ''- Set development team (Signing & Capabilities)\<newline>'' @
     ''- Configure app icons and splash screens\<newline>'' @
     ''- Set deployment target (iOS 13.0+)\<newline>'' @
     ''- Add required permissions to Info.plist\<newline>'' @
     ''\<newline>'' @
     ''### 5. Build & Run\<newline>'' @
     ''\<newline>'' @
     ''- Select device/simulator\<newline>'' @
     ''- Click Run ('' @ command_key @ ''R) or Build ('' @ command_key @ ''B)''\<close>

definition generateTestingChecklist :: string where
  \<open>generateTestingChecklist =
     ''## Testing Checklist\<newline>'' @
     ''\<newline>'' @
     ''- [ ] App launches without crashes\<newline>'' @
     ''- [ ] Navigation works correctly\<newline>'' @
     ''- [ ] API calls succeed\<newline>'' @
     ''- [ ] Authentication flows work\<newline>'' @
     ''- [ ] Local storage persists\<newline>'' @
     ''- [ ] Images and assets load\<newline>'' @
     ''- [ ] Forms submit properly\<newline>'' @
     ''- [ ] Responsive layout on different screen sizes\<newline>'' @
     ''- [ ] Status bar and safe area handled\<newline>'' @
     ''- [ ] Back button behavior correct''\<close>

text \<open>An absent and an empty \<open>primaryColor\<close> are both falsy.\<close>

definition generateNextSteps :: "string option \<Rightarrow> string" where
  \<open>generateNextSteps color =
     ''## Next Steps\<newline>'' @
     ''\<newline>'' @
     ''1. **App Icon & Splash Screen**\<newline>'' @
     ''   - Use `@capacitor/assets` for generation\<newline>'' @
     ''   - Prepare 1024x1024 icon'' @
     (case color of
        None \<Rightarrow> []
      | Some c \<Rightarrow> if c = [] then [] else '' (use '' @ c @ '' as primary color)'') @
     ''\<newline>'' @
     ''\<newline>'' @
     ''2. **App Store Preparation**\<newline>'' @
     ''   - Create App Store Connect listing\<newline>'' @
     ''   - Prepare screenshots (6.5", 5.5")\<newline>'' @
     ''   - Write app description and keywords\<newline>'' @
     ''\<newline>'' @
     ''3. **Testing**\<newline>'' @
     ''   - Test on physical device\<newline>'' @
     ''   - Submit to TestFlight for beta testing\<newline>'' @
     ''\<newline>'' @
     ''4. **Performance Optimization**\<newline>'' @
     ''   - Minimize bundle size\<newline>'' @
     ''   - Optimize images\<newline>'' @
     ''   - Enable code splitting\<newline>'' @
     ''\<newline>'' @
     ''---\<newline>'' @
     ''\<newline>'' @
     ''**Generated by web-to-ios-mcp**''\<close>

definition generateMigrationSpec :: "runtime \<Rightarrow> AnyProjectInfo \<Rightarrow> GenerateSpecOptions \<Rightarrow> string" where
  "generateMigrationSpec rt projectInfo options =
     (let sections =
            [generateHeader rt (appName options) projectInfo,
             generateProjectOverview rt projectInfo,
             generateCapacitorSetup projectInfo (appName options) (bundleId options),
             generateFrameworkSpecificSteps projectInfo,
             generateCommonIssues projectInfo,
             generateBuildSteps rt projectInfo,
             generateTestingChecklist,
             generateNextSteps (primaryColor options)]
      in join ''\<newline>\<newline>'' sections)"

section \<open>The notions the properties are stated in\<close>

subsection \<open>Files and directories\<close>

text \<open>
  A file is missing when \<open>fs.access\<close> rejects. It exceeds a bound when \<open>fs.stat\<close> reports a
  larger size. It is readable within the bound with a content when \<open>fs.access\<close> resolves,
  \<open>fs.stat\<close> reports a size within the bound and \<open>fs.readFile\<close> gives the content. Its
  content is not valid JSON when \<open>JSON.parse\<close> throws on what \<open>fs.readFile\<close> gives.
\<close>

definition file_missing :: "runtime \<Rightarrow> string \<Rightarrow> bool" where
  "file_missing rt path = isl (fs_access rt path)"

definition file_exceeds :: "runtime \<Rightarrow> string \<Rightarrow> nat \<Rightarrow> bool" where
  "file_exceeds rt path bound =
     (case fs_stat rt path of Inl e \<Rightarrow> False | Inr stats \<Rightarrow> st_size stats > bound)"

definition file_readable :: "runtime \<Rightarrow> string \<Rightarrow> nat \<Rightarrow> string \<Rightarrow> bool" where
  "file_readable rt path bound text =
     (\<not> isl (fs_access rt path) \<and>
      (case fs_stat rt path of Inl e \<Rightarrow> False | Inr stats \<Rightarrow> st_size stats \<le> bound) \<and>
      fs_readFile rt path = Inr text)"

definition file_invalid_json :: "runtime \<Rightarrow> string \<Rightarrow> bool" where
  "file_invalid_json rt path =
     (case fs_readFile rt path of Inl e \<Rightarrow> False | Inr text \<Rightarrow> isl (JSON_parse rt text))"

definition directory_exists :: "runtime \<Rightarrow> string \<Rightarrow> bool" where
  "directory_exists rt path =
     (case fs_stat rt path of Inl e \<Rightarrow> False | Inr stats \<Rightarrow> st_isDirectory stats)"

definition manifestPath :: "runtime \<Rightarrow> string \<Rightarrow> string" where
  "manifestPath rt dir = path_join rt dir [''package.json'']"

subsection \<open>Manifests\<close>

text \<open>
  A manifest declares a dependency when the name appears in it: \<open>dependencies\<close> or
  \<open>devDependencies\<close> is an object with a property of that name, whatever its value. The
  manifest gives the dependency a version when one of the two gives the name a value that
  is not falsy; for a string, a version that is not empty. A dependency is shadowed when
  \<open>devDependencies\<close> gives the name a falsy value.
\<close>

definition has_property :: "js_value \<Rightarrow> string \<Rightarrow> bool" where
  "has_property v name =
     (case v of JObj kvs \<Rightarrow> (case map_of kvs name of None \<Rightarrow> False | Some x \<Rightarrow> True) | _ \<Rightarrow> False)"

definition lists_dependency :: "js_value \<Rightarrow> string \<Rightarrow> bool" where
  "lists_dependency pkg name =
     (has_property (get_prop pkg ''dependencies'') name \<or>
      has_property (get_prop pkg ''devDependencies'') name)"

definition gives_value :: "js_value \<Rightarrow> string \<Rightarrow> bool" where
  "gives_value v name =
     (case v of
        JObj kvs \<Rightarrow> (case map_of kvs name of None \<Rightarrow> False | Some x \<Rightarrow> truthy x)
      | _ \<Rightarrow> False)"

definition versioned_dependency :: "js_value \<Rightarrow> string \<Rightarrow> bool" where
  "versioned_dependency pkg name =
     (gives_value (get_prop pkg ''dependencies'') name \<or>
      gives_value (get_prop pkg ''devDependencies'') name)"

definition shadowed_dependency :: "js_value \<Rightarrow> string \<Rightarrow> bool" where
  "shadowed_dependency pkg name =
     (case get_prop pkg ''devDependencies'' of
        JObj kvs \<Rightarrow> (case map_of kvs name of None \<Rightarrow> False | Some x \<Rightarrow> \<not> truthy x)
      | _ \<Rightarrow> False)"

subsection \<open>The patterns, as the languages they denote\<close>

text \<open>
  A run of white space is a concatenation of white-space code points. A text starts with
  an export literal when it is \<open>output\<close>, a run, a colon, a run, a quote, \<open>export\<close> and a
  quote, followed by anything; it matches the export pattern when some suffix of it starts
  with one.

  The \<open>outDir\<close> pattern matches at the start of a text, with a group, when the text is
  \<open>outDir\<close>, a run, a colon, a run, a quote, the group and a quote, followed by anything,
  the group not empty and free of quotes; the two quotes may differ. The first match of a
  text is the one no other starts before.

  An \<open>outDir\<close> literal for a directory is narrower than a match: the directory stands
  between two quotes of the same kind, it is not empty, and each of its characters is
  plain, one that a string literal of the language takes for itself: no quote of either
  kind, no backslash and no line break. The first literal of a text is a literal before
  which the pattern matches nowhere.
\<close>

definition whitespace_run :: "string \<Rightarrow> bool" where
  "whitespace_run w = (\<exists>parts. set parts \<subseteq> set js_whitespace \<and> w = concat parts)"

definition export_literal :: "string \<Rightarrow> bool" where
  \<open>export_literal s =
     (\<exists>w1 w2 q1 q2 rest.
        whitespace_run w1 \<and> whitespace_run w2 \<and> is_quote q1 \<and> is_quote q2 \<and>
        s = ''output'' @ w1 @ '':'' @ w2 @ [q1] @ ''export'' @ [q2] @ rest)\<close>

definition matches_export :: "string \<Rightarrow> bool" where
  "matches_export text = (\<exists>pre s. text = pre @ s \<and> export_literal s)"

definition outDir_match :: "string \<Rightarrow> string \<Rightarrow> bool" where
  \<open>outDir_match s dir =
     (\<exists>w1 w2 q1 q2 rest.
        whitespace_run w1 \<and> whitespace_run w2 \<and> is_quote q1 \<and> is_quote q2 \<and>
        dir \<noteq> [] \<and> list_all (\<lambda>c. \<not> is_quote c) dir \<and>
        s = ''outDir'' @ w1 @ '':'' @ w2 @ [q1] @ dir @ [q2] @ rest)\<close>

definition first_outDir_match :: "string \<Rightarrow> string \<Rightarrow> bool" where
  "first_outDir_match text dir =
     (\<exists>pre s. text = pre @ s \<and> outDir_match s dir \<and>
        (\<forall>i < length pre. \<forall>d. \<not> outDir_match (drop i text) d))"

definition plain_char :: "char \<Rightarrow> bool" where
  "plain_char c = (\<not> is_quote c \<and> c \<noteq> CHR 0x5C \<and> c \<noteq> CHR 0x0A \<and> c \<noteq> CHR 0x0D)"

definition outDir_literal :: "string \<Rightarrow> string \<Rightarrow> bool" where
  \<open>outDir_literal s dir =
     (\<exists>w1 w2 q rest.
        whitespace_run w1 \<and> whitespace_run w2 \<and> is_quote q \<and>
        dir \<noteq> [] \<and> list_all plain_char dir \<and>
        s = ''outDir'' @ w1 @ '':'' @ w2 @ [q] @ dir @ [q] @ rest)\<close>

definition first_outDir_literal :: "string \<Rightarrow> string \<Rightarrow> bool" where
  "first_outDir_literal text dir =
     (\<exists>pre s. text = pre @ s \<and> outDir_literal s dir \<and>
        (\<forall>i < length pre. \<forall>d. \<not> outDir_match (drop i text) d))"

text \<open>
  The first existing configuration file among the names, in their order: it exists, and
  every name before it is missing.
\<close>

definition first_existing :: "runtime \<Rightarrow> string \<Rightarrow> string list \<Rightarrow> string \<Rightarrow> bool" where
  "first_existing rt dir names name =
     (\<exists>before after. names = before @ name # after \<and>
        \<not> file_missing rt (path_join rt dir [name]) \<and>
        list_all (\<lambda>n. file_missing rt (path_join rt dir [n])) before)"

subsection \<open>Occurrences in a generated text\<close>

text \<open>
  \<open>no_start d s\<close>: at no position of \<open>s\<close> does \<open>d\<close> start or could start, whatever follows
  \<open>s\<close>; that is, no suffix of \<open>s\<close> but the empty one is a prefix of \<open>d\<close> or has \<open>d\<close> as a
  prefix. A text is free of the warning sign when that holds of U+26A0; for a text in
  UTF-8 this says that the sign does not occur in it.
\<close>

fun no_start :: "string \<Rightarrow> string \<Rightarrow> bool" where
  "no_start d [] = True"
| "no_start d (c # cs) = (\<not> prefix d (c # cs) \<and> \<not> prefix (c # cs) d \<and> no_start d cs)"

definition warning_sign_only :: string where
  "warning_sign_only = [CHR 0xE2, CHR 0x9A, CHR 0xA0]"

definition warning_free :: "string \<Rightarrow> bool" where
  "warning_free s = no_start warning_sign_only s"

text \<open>
  Three starts of a warning: the sign and a star, which no text outside the Next.js steps
  holds, and the starts that tell the two warnings of the steps apart.
\<close>

definition warning_star :: string where
  "warning_star = warning_sign @ '' *''"

definition critical_start :: string where
  "critical_start = warning_sign @ '' **C''"

definition api_start :: string where
  "api_start = warning_sign @ '' **A''"

text \<open>
  The static-export critical-warning block: the warning, a blank line and the
  instructions, as the Next.js steps put them for a project without static export.
\<close>

definition criticalWarningBlock :: string where
  "criticalWarningBlock =
     staticExportCriticalWarning @ ''\<newline>'' @ ''\<newline>'' @ nextConfigInstructions"

text \<open>The strings a specification of a Next.js project interpolates.\<close>

definition interpolated :: "runtime \<Rightarrow> NextJsProjectInfo \<Rightarrow> GenerateSpecOptions \<Rightarrow> string list" where
  "interpolated rt p options =
     [appName options, bundleId options,
      (case primaryColor options of None \<Rightarrow> [] | Some c \<Rightarrow> c),
      now_iso rt,
      interpolate rt (version p), interpolate rt (buildCommand p), buildOutputDir p]"

subsection \<open>The list of the no-match text\<close>

definition bulletList :: "string list \<Rightarrow> string" where
  "bulletList items = concat (map (\<lambda>item. ''- '' @ item @ ''\<newline>'') items)"

definition supportedFrameworks :: "string list" where
  "supportedFrameworks =
     [''Vite (React, Vue, Svelte, Angular)'', ''Next.js'', ''Create React App (coming soon)'']"

section \<open>Example directories\<close>

text \<open>
  A directory given by its entries, each under its full path: a file with its size in
  bytes and its content, or a directory. \<open>path.join\<close> is the join of POSIX paths that need
  no normalisation. \<open>JSON.parse\<close> is given by a table of the texts that parse.
\<close>

datatype fs_entry = FileEntry nat string | DirEntry

definition posix_join :: "string \<Rightarrow> string list \<Rightarrow> string" where
  "posix_join dir segments = dir @ concat (map (\<lambda>s. CHR 0x2F # s) segments)"

definition baseName :: "string \<Rightarrow> string" where
  "baseName path = rev (takeWhile (\<lambda>c. c \<noteq> CHR 0x2F) (rev path))"

definition enoent :: js_error where
  "enoent = SystemError ''ENOENT: no such file or directory''"

definition example_runtime :: "(string \<times> fs_entry) list \<Rightarrow> (string \<times> js_value) list \<Rightarrow> runtime" where
  "example_runtime entries json =
     \<lparr>path_join = posix_join,
      fs_access = (\<lambda>path. case map_of entries path of None \<Rightarrow> Inl enoent | Some e \<Rightarrow> Inr ()),
      fs_stat = (\<lambda>path. case map_of entries path of
                   None \<Rightarrow> Inl enoent
                 | Some (FileEntry n text) \<Rightarrow> Inr \<lparr>st_size = n, st_isDirectory = False\<rparr>
                 | Some DirEntry \<Rightarrow> Inr \<lparr>st_size = 4096, st_isDirectory = True\<rparr>),
      fs_readFile = (\<lambda>path. case map_of entries path of
                   None \<Rightarrow> Inl enoent
                 | Some (FileEntry n text) \<Rightarrow> Inr text
                 | Some DirEntry \<Rightarrow> Inl (SystemError ''EISDIR: illegal operation on a directory'')),
      fs_readdir = (\<lambda>path. case map_of entries path of
                   Some DirEntry \<Rightarrow>
                     Inr (map (\<lambda>(q, e). \<lparr>d_name = baseName q, d_isFile = (e \<noteq> DirEntry)\<rparr>)
                            (filter (\<lambda>(q, e). prefix (path @ [CHR 0x2F]) q) entries))
                 | _ \<Rightarrow> Inl enoent),
      JSON_parse = (\<lambda>text. case map_of json text of
                   None \<Rightarrow> Inl (SyntaxError ''Unexpected token'')
                 | Some v \<Rightarrow> Inr v),
      ToString = (\<lambda>v. ''[object Object]''),
      now_iso = ''2025-11-15T09:30:00.000Z''\<rparr>"

text \<open>A directory with an unparseable manifest and a file beyond the size bound.\<close>

definition facade_example :: runtime where
  \<open>facade_example =
     example_runtime
       [(''/app/package.json'', FileEntry 16 ''{ "name": "app",''),
        (''/app/video.bin'', FileEntry 10485761 (replicate 10485761 (CHR 0x00)))]
       []\<close>

text \<open>A project in migration: the pages directory is still there beside \<open>src/app\<close>.\<close>

definition migrating_example :: runtime where
  \<open>migrating_example =
     example_runtime
       [(''/site/package.json'', FileEntry 34 ''{"dependencies":{"next":"14.2.3"}}''),
        (''/site/pages'', DirEntry),
        (''/site/pages/index.tsx'', FileEntry 33 ''export default function Home() {}''),
        (''/site/src'', DirEntry),
        (''/site/src/app'', DirEntry),
        (''/site/src/app/page.tsx'', FileEntry 33 ''export default function Page() {}'')]
       [(''{"dependencies":{"next":"14.2.3"}}'', JObj [(''dependencies'', JObj [(''next'', JStr ''14.2.3'')])])]\<close>

text \<open>A directory whose manifest names neither framework; \<open>/elsewhere\<close> has no manifest.\<close>

definition static_site_manifest :: js_value where
  \<open>static_site_manifest =
     JObj [(''name'', JStr ''landing''),
           (''devDependencies'', JObj [(''typescript'', JStr ''^5.4.0'')])]\<close>

definition static_site_example :: runtime where
  \<open>static_site_example =
     example_runtime
       [(''/landing/package.json'', FileEntry 60 ''{"name":"landing","devDependencies":{"typescript":"^5.4.0"}}''),
        (''/landing/index.html'', FileEntry 37 ''<!doctype html><title>Landing</title>'')]
       [(''{"name":"landing","devDependencies":{"typescript":"^5.4.0"}}'', static_site_manifest)]\<close>

text \<open>
  Three Next.js projects with the same manifest: \<open>/shop\<close> has neither convention directory
  and no configuration file, \<open>/blog\<close> computes its output mode, \<open>/docs\<close> exports; the two
  configurations set another build directory.
\<close>

definition plain_next_manifest_text :: string where
  \<open>plain_next_manifest_text =
     ''{"name":"shop","scripts":{"build":"next build"},"dependencies":{"next":"14.2.3","react":"^18.3.1"}}''\<close>

definition plain_next_manifest :: js_value where
  \<open>plain_next_manifest =
     JObj [(''name'', JStr ''shop''),
           (''scripts'', JObj [(''build'', JStr ''next build'')]),
           (''dependencies'', JObj [(''next'', JStr ''14.2.3''), (''react'', JStr ''^18.3.1'')])]\<close>

definition plain_next_example :: runtime where
  \<open>plain_next_example =
     example_runtime
       [(''/shop/package.json'', FileEntry 99 plain_next_manifest_text),
        (''/shop/lib'', DirEntry),
        (''/shop/lib/route.ts'', FileEntry 25 ''export const route = "/";''),
        (''/blog/package.json'', FileEntry 99 plain_next_manifest_text),
        (''/blog/app'', DirEntry),
        (''/blog/next.config.js'', FileEntry 62 ''module.exports = { distDir: 'build', output: process.env.OUT }''),
        (''/docs/package.json'', FileEntry 99 plain_next_manifest_text),
        (''/docs/next.config.mjs'', FileEntry 54 ''export default { distDir: 'build', output : "export" }'')]
       [(plain_next_manifest_text, plain_next_manifest)]\<close>

definition next_model :: "RouterType \<Rightarrow> bool \<Rightarrow> string \<Rightarrow> NextJsProjectInfo" where
  \<open>next_model r s out =
     \<lparr>version = JStr ''14.2.3'', buildCommand = JStr ''next build'', buildOutputDir = out,
      routerType = r, hasApiRoutes = False, isStaticExport = s\<rparr>\<close>

text \<open>
  Three Vite projects: \<open>/dash\<close> sets its output directory in \<open>vite.config.js\<close>; \<open>/big\<close> has
  the same setting at the head of a configuration file of 10 MiB and one byte; in the
  manifest of \<open>/kit\<close> an empty entry of \<open>devDependencies\<close> stands beside the version of
  \<open>react\<close>.
\<close>

definition dash_manifest_text :: string where
  \<open>dash_manifest_text =
     ''{"name":"dash","scripts":{"build":"tsc && vite build"},"dependencies":{"react":"^18.3.1"},"devDependencies":{"vite":"^5.2.0"}}''\<close>

definition dash_manifest :: js_value where
  \<open>dash_manifest =
     JObj [(''name'', JStr ''dash''),
           (''scripts'', JObj [(''build'', JStr ''tsc && vite build'')]),
           (''dependencies'', JObj [(''react'', JStr ''^18.3.1'')]),
           (''devDependencies'', JObj [(''vite'', JStr ''^5.2.0'')])]\<close>

definition kit_manifest_text :: string where
  \<open>kit_manifest_text =
     ''{"name":"kit","dependencies":{"react":"^18.3.1"},"devDependencies":{"vite":"^5.2.0","react":""}}''\<close>

definition kit_manifest :: js_value where
  \<open>kit_manifest =
     JObj [(''name'', JStr ''kit''),
           (''dependencies'', JObj [(''react'', JStr ''^18.3.1'')]),
           (''devDependencies'', JObj [(''vite'', JStr ''^5.2.0''), (''react'', JStr [])])]\<close>

definition dash_config :: string where
  \<open>dash_config = ''export default { build: { outDir: 'build' } }''\<close>

definition two_outDir_config :: string where
  \<open>two_outDir_config =
     ''export default { build: { outDir: 'build' }, test: { outDir: 'coverage' } }''\<close>

definition oversized_config :: string where
  \<open>oversized_config = dash_config @ ''\<newline>// '' @ replicate 10485712 (CHR ''x'')\<close>

definition vite_example :: runtime where
  \<open>vite_example =
     example_runtime
       [(''/dash/package.json'', FileEntry 126 dash_manifest_text),
        (''/dash/vite.config.js'', FileEntry 45 dash_config),
        (''/dash/vite.config.cjs'', FileEntry 75 two_outDir_config),
        (''/big/package.json'', FileEntry 126 dash_manifest_text),
        (''/big/vite.config.ts'', FileEntry 10485761 oversized_config),
        (''/kit/package.json'', FileEntry 96 kit_manifest_text),
        (''/kit/vite.config.ts'', FileEntry 45 dash_config)]
       [(dash_manifest_text, dash_manifest), (kit_manifest_text, kit_manifest)]\<close>

text \<open>
  Two manifests that name a framework with an empty version, which npm reads as any
  version, and a configuration whose directory holds a quote.
\<close>

definition old_manifest_text :: string where
  \<open>old_manifest_text = ''{"name":"old","dependencies":{"next":""}}''\<close>

definition old_manifest :: js_value where
  \<open>old_manifest = JObj [(''name'', JStr ''old''), (''dependencies'', JObj [(''next'', JStr [])])]\<close>

definition bare_manifest_text :: string where
  \<open>bare_manifest_text = ''{"name":"bare","dependencies":{"vite":"","react":"^18.3.1"}}''\<close>

definition bare_manifest :: js_value where
  \<open>bare_manifest =
     JObj [(''name'', JStr ''bare''),
           (''dependencies'', JObj [(''vite'', JStr []), (''react'', JStr ''^18.3.1'')])]\<close>

definition quoted_dir_config :: string where
  \<open>quoted_dir_config = ''export default { build: { outDir: "it's-dist" } }''\<close>

definition unversioned_example :: runtime where
  \<open>unversioned_example =
     example_runtime
       [(''/old/package.json'', FileEntry 41 old_manifest_text),
        (''/old/pages'', DirEntry),
        (''/bare/package.json'', FileEntry 60 bare_manifest_text),
        (''/bare/vite.config.ts'', FileEntry 45 dash_config)]
       [(old_manifest_text, old_manifest), (bare_manifest_text, bare_manifest)]\<close>

text \<open>
  Options for a specification, a model with static export and API routes, and options
  whose application name is the text of the critical-warning block.
\<close>

definition blog_options :: GenerateSpecOptions where
  \<open>blog_options =
     \<lparr>projectPath = ''/blog'', appName = ''Blog'', bundleId = ''com.example.blog'',
      primaryColor = Some ''#0af''\<rparr>\<close>

definition exported_api_model :: NextJsProjectInfo where
  \<open>exported_api_model =
     \<lparr>version = JStr ''14.2.3'', buildCommand = JStr ''next build'', buildOutputDir = ''out'',
      routerType = App, hasApiRoutes = True, isStaticExport = True\<rparr>\<close>

definition injected_options :: GenerateSpecOptions where
  \<open>injected_options =
     \<lparr>projectPath = ''/docs'', appName = criticalWarningBlock, bundleId = ''com.example.docs'',
      primaryColor = None\<rparr>\<close>

section \<open>The patterns match their languages\<close>

lemma strip_prefix_Some: "strip_prefix p s = Some r \<longleftrightarrow> s = p @ r"
  by (induction p s rule: strip_prefix.induct) auto

lemma js_whitespace_nonempty: "w \<in> set js_whitespace \<Longrightarrow> w \<noteq> []"
  by (auto simp: js_whitespace_def)

lemma js_whitespace_prefix_free_chk:
  "list_all (\<lambda>w. list_all (\<lambda>w'. \<not> prefix w w' \<or> w = w') js_whitespace) js_whitespace"
  by code_simp

lemma js_whitespace_prefix_free:
  "w \<in> set js_whitespace \<Longrightarrow> w' \<in> set js_whitespace \<Longrightarrow> prefix w w' \<Longrightarrow> w = w'"
  using js_whitespace_prefix_free_chk unfolding list_all_iff by blast

lemma js_whitespace_first_byte:
  "w \<in> set js_whitespace \<Longrightarrow> hd w \<noteq> CHR 0x3A \<and> \<not> is_quote (hd w)"
  by (auto simp: js_whitespace_def is_quote_def)

lemma ws_len_0: "ws_len s = 0 \<longleftrightarrow> (\<forall>w \<in> set js_whitespace. \<not> prefix w s)"
proof (cases "find (\<lambda>w. prefix w s) js_whitespace")
  case None
  then have "ws_len s = 0" by (simp add: ws_len_def)
  moreover from None have "\<forall>w \<in> set js_whitespace. \<not> prefix w s" by (simp add: find_None_iff)
  ultimately show ?thesis by simp
next
  case (Some w)
  then have "w \<in> set js_whitespace" "prefix w s" by (auto simp: find_Some_iff)
  moreover from this have "w \<noteq> []" by (simp add: js_whitespace_nonempty)
  ultimately show ?thesis using Some by (auto simp: ws_len_def)
qed

lemma ws_len_Suc:
  assumes "ws_len s = Suc n"
  shows "\<exists>w \<in> set js_whitespace. s = w @ drop (Suc n) s \<and> length w = Suc n"
proof -
  from assms obtain w where f: "find (\<lambda>w. prefix w s) js_whitespace = Some w" and l: "length w = Suc n"
    by (auto simp: ws_len_def split: option.splits)
  then have "w \<in> set js_whitespace" "prefix w s"
    by (auto simp: find_Some_iff)
  with l show ?thesis by (auto simp: prefix_def)
qed

lemma ws_len_append:
  assumes "w \<in> set js_whitespace"
  shows "ws_len (w @ t) = length w"
proof -
  have "\<exists>x. find (\<lambda>v. prefix v (w @ t)) js_whitespace = Some x"
    using assms by (cases "find (\<lambda>v. prefix v (w @ t)) js_whitespace") (auto simp: find_None_iff)
  then obtain x where f: "find (\<lambda>v. prefix v (w @ t)) js_whitespace = Some x" ..
  then have x: "x \<in> set js_whitespace" "prefix x (w @ t)" by (auto simp: find_Some_iff)
  have "prefix w (w @ t)" by simp
  with x(2) have "prefix x w \<or> prefix w x"
    using prefix_same_cases by blast
  with x(1) assms have "x = w" using js_whitespace_prefix_free by blast
  with f show ?thesis by (simp add: ws_len_def)
qed

lemma skip_ws_sound: "\<exists>w. whitespace_run w \<and> s = w @ skip_ws s \<and> ws_len (skip_ws s) = 0"
proof (induction s rule: skip_ws.induct)
  case 1
  show ?case by (auto simp: whitespace_run_def ws_len_0 dest: js_whitespace_nonempty intro: exI[of _ "[]"])
next
  case (2 c cs)
  show ?case
  proof (cases "ws_len (c # cs)")
    case 0
    then show ?thesis by (auto simp: whitespace_run_def intro: exI[of _ "[]"])
  next
    case (Suc n)
    from ws_len_Suc[OF Suc] obtain w where w: "w \<in> set js_whitespace" "c # cs = w @ drop (Suc n) (c # cs)" "length w = Suc n"
      by blast
    from 2[OF Suc] obtain v where v: "whitespace_run v" "drop n cs = v @ skip_ws (drop n cs)" "ws_len (skip_ws (drop n cs)) = 0"
      by blast
    from v(1) obtain parts where p: "set parts \<subseteq> set js_whitespace" "v = concat parts"
      by (auto simp: whitespace_run_def)
    have "whitespace_run (w @ v)"
      unfolding whitespace_run_def using p w(1) by (intro exI[of _ "w # parts"]) auto
    moreover have "c # cs = (w @ v) @ skip_ws (c # cs)"
    proof -
      have "skip_ws (c # cs) = skip_ws (drop n cs)" using Suc by simp
      moreover have "c # cs = w @ drop n cs" using w(2) by simp
      ultimately show ?thesis using v(2) by (metis append.assoc)
    qed
    moreover have "ws_len (skip_ws (c # cs)) = 0" using v(3) Suc by simp
    ultimately show ?thesis by blast
  qed
qed

lemma skip_ws_stop: "ws_len r = 0 \<Longrightarrow> skip_ws r = r"
  by (cases r) auto

lemma skip_ws_step:
  assumes "w \<in> set js_whitespace"
  shows "skip_ws (w @ t) = skip_ws t"
proof -
  from js_whitespace_nonempty[OF assms] obtain c cs where w: "w = c # cs" by (cases w) auto
  have "ws_len ((c # cs) @ t) = Suc (length cs)" using ws_len_append[OF assms, of t] w by simp
  then show ?thesis using w by simp
qed

lemma skip_ws_complete:
  assumes "whitespace_run w" "ws_len r = 0"
  shows "skip_ws (w @ r) = r"
proof -
  from assms(1) obtain parts where p: "set parts \<subseteq> set js_whitespace" "w = concat parts"
    by (auto simp: whitespace_run_def)
  have "set parts \<subseteq> set js_whitespace \<Longrightarrow> skip_ws (concat parts @ r) = r"
    by (induction parts) (auto simp: skip_ws_stop[OF assms(2)] skip_ws_step)
  with p show ?thesis by simp
qed

lemma ws_len_first_byte:
  assumes "\<forall>w \<in> set js_whitespace. hd w \<noteq> c"
  shows "ws_len (c # t) = 0"
  unfolding ws_len_0
proof
  fix w assume w: "w \<in> set js_whitespace"
  from js_whitespace_nonempty[OF w] obtain x xs where "w = x # xs" by (cases w) auto
  with assms w show "\<not> prefix w (c # t)" by auto
qed

lemma ws_len_colon: "ws_len (CHR 0x3A # t) = 0"
  using js_whitespace_first_byte by (intro ws_len_first_byte) blast

lemma ws_len_quote: "is_quote q \<Longrightarrow> ws_len (q # t) = 0"
  using js_whitespace_first_byte by (intro ws_len_first_byte) metis

lemma export_at_iff: "export_at s \<longleftrightarrow> export_literal s"
proof
  assume "export_at s"
  note e = this [unfolded export_at_def]
  obtain r1 where b1: "strip_prefix ''output'' s = Some r1"
    using e by (cases "strip_prefix ''output'' s") (simp_all del: strip_prefix.simps)
  obtain r2 where b2: "strip_prefix '':'' (skip_ws r1) = Some r2"
    using e b1 by (cases "strip_prefix '':'' (skip_ws r1)") (simp_all del: strip_prefix.simps)
  obtain q1 r3 where b3: "skip_ws r2 = q1 # r3"
    using e b1 b2 by (cases "skip_ws r2") (simp_all del: strip_prefix.simps)
  obtain r4 where b5: "strip_prefix ''export'' r3 = Some r4"
    using e b1 b2 b3 by (cases "strip_prefix ''export'' r3") (simp_all del: strip_prefix.simps)
  obtain q2 r5 where b6: "r4 = q2 # r5"
    using e b1 b2 b3 b5 by (cases r4) (simp_all del: strip_prefix.simps)
  have b4: "is_quote q1" and b7: "is_quote q2"
    using e b1 b2 b3 b5 b6 by (simp_all del: strip_prefix.simps)
  note b = b1 b2 b3 b4 b5 b6 b7
  then have
    a: "s = ''output'' @ r1" "skip_ws r1 = CHR 0x3A # r2" "skip_ws r2 = q1 # r3" "is_quote q1"
       "r3 = ''export'' @ q2 # r5" "is_quote q2"
    by (simp_all only: strip_prefix_Some) simp_all
  from a(2) obtain w1 where w1: "whitespace_run w1" "r1 = w1 @ CHR 0x3A # r2"
    using skip_ws_sound[of r1] by auto
  from a(3) obtain w2 where w2: "whitespace_run w2" "r2 = w2 @ q1 # r3"
    using skip_ws_sound[of r2] by auto
  show "export_literal s"
    unfolding export_literal_def using a w1 w2
    by (intro exI[of _ w1] exI[of _ w2] exI[of _ q1] exI[of _ q2] exI[of _ r5]) simp
next
  assume "export_literal s"
  then obtain w1 w2 q1 q2 rest where
    a: "whitespace_run w1" "whitespace_run w2" "is_quote q1" "is_quote q2"
       "s = ''output'' @ w1 @ '':'' @ w2 @ [q1] @ ''export'' @ [q2] @ rest"
    unfolding export_literal_def by blast
  have 1: "strip_prefix ''output'' s = Some (w1 @ CHR 0x3A # w2 @ q1 # ''export'' @ q2 # rest)"
    using a(5) by (simp only: strip_prefix_Some) simp
  have 2: "skip_ws (w1 @ CHR 0x3A # w2 @ q1 # ''export'' @ q2 # rest) = CHR 0x3A # w2 @ q1 # ''export'' @ q2 # rest"
    using skip_ws_complete[OF a(1) ws_len_colon] by simp
  have 3: "skip_ws (w2 @ q1 # ''export'' @ q2 # rest) = q1 # ''export'' @ q2 # rest"
    using skip_ws_complete[OF a(2) ws_len_quote[OF a(3)]] by simp
  show "export_at s"
    unfolding export_at_def using 1 2 3 a(3,4) by simp
qed

lemma regex_test_iff: "regex_test pat s \<longleftrightarrow> (\<exists>pre t. s = pre @ t \<and> pat t)"
proof (induction s)
  case Nil
  then show ?case by simp
next
  case (Cons c cs)
  show ?case
  proof
    assume "regex_test pat (c # cs)"
    then consider "pat (c # cs)" | "regex_test pat cs" by auto
    then show "\<exists>pre t. c # cs = pre @ t \<and> pat t"
    proof cases
      case 1
      then show ?thesis by (intro exI[of _ "[]"] exI[of _ "c # cs"]) simp
    next
      case 2
      with Cons obtain pre t where "cs = pre @ t" "pat t" by blast
      then show ?thesis by (intro exI[of _ "c # pre"] exI[of _ t]) simp
    qed
  next
    assume "\<exists>pre t. c # cs = pre @ t \<and> pat t"
    then obtain pre t where pt: "c # cs = pre @ t" "pat t" by blast
    show "regex_test pat (c # cs)"
    proof (cases pre)
      case Nil
      with pt have "pat (c # cs)" by simp
      then show ?thesis by simp
    next
      case (Cons a pre')
      with pt have "cs = pre' @ t" by simp
      with pt(2) Cons.IH show ?thesis by auto
    qed
  qed
qed

lemma group_split:
  assumes "list_all (\<lambda>c. \<not> is_quote c) dir" "is_quote q2"
  shows "takeWhile (\<lambda>c. \<not> is_quote c) (dir @ q2 # rest) = dir"
    and "dropWhile (\<lambda>c. \<not> is_quote c) (dir @ q2 # rest) = q2 # rest"
  using assms by (simp_all add: list_all_iff)

lemma outDir_at_iff: "outDir_at s = Some dir \<longleftrightarrow> outDir_match s dir"
proof
  assume "outDir_at s = Some dir"
  note e = this [unfolded outDir_at_def]
  obtain r1 where b1: "strip_prefix ''outDir'' s = Some r1"
    using e by (cases "strip_prefix ''outDir'' s") (simp_all del: strip_prefix.simps)
  obtain r2 where b2: "strip_prefix '':'' (skip_ws r1) = Some r2"
    using e b1 by (cases "strip_prefix '':'' (skip_ws r1)") (simp_all del: strip_prefix.simps)
  obtain q1 r3 where b3: "skip_ws r2 = q1 # r3"
    using e b1 b2 by (cases "skip_ws r2") (simp_all del: strip_prefix.simps)
  have b4: "is_quote q1"
    using e b1 b2 b3 by (simp del: strip_prefix.simps split: if_splits)
  obtain q2 r5 where b7: "dropWhile (\<lambda>c. \<not> is_quote c) r3 = q2 # r5"
    using e b1 b2 b3 b4
    by (cases "dropWhile (\<lambda>c. \<not> is_quote c) r3")
       (simp_all del: strip_prefix.simps dropWhile_eq_Nil_conv add: Let_def split: if_splits)
  have b5: "takeWhile (\<lambda>c. \<not> is_quote c) r3 = dir" "dir \<noteq> []"
    using e b1 b2 b3 b4 b7
    by (auto simp del: strip_prefix.simps simp: Let_def split: if_splits)
  from b7 have b8: "is_quote q2" using hd_dropWhile[of "\<lambda>c. \<not> is_quote c" r3] by simp
  have b9: "r3 = dir @ q2 # r5" using takeWhile_dropWhile_id[of "\<lambda>c. \<not> is_quote c" r3] b5 b7 by simp
  have b10: "list_all (\<lambda>c. \<not> is_quote c) dir"
    unfolding list_all_iff using b5(1) set_takeWhileD by fastforce
  from b3 obtain w2 where w2: "whitespace_run w2" "r2 = w2 @ q1 # r3"
    using skip_ws_sound[of r2] by auto
  from b2 have "skip_ws r1 = CHR 0x3A # r2" by (simp only: strip_prefix_Some) simp
  then obtain w1 where w1: "whitespace_run w1" "r1 = w1 @ CHR 0x3A # r2"
    using skip_ws_sound[of r1] by auto
  from b1 have "s = ''outDir'' @ r1" by (simp only: strip_prefix_Some)
  then show "outDir_match s dir"
    unfolding outDir_match_def using w1 w2 b4 b8 b9 b10 b5(2)
    by (intro exI[of _ w1] exI[of _ w2] exI[of _ q1] exI[of _ q2] exI[of _ r5]) simp
next
  assume "outDir_match s dir"
  then obtain w1 w2 q1 q2 rest where
    a: "whitespace_run w1" "whitespace_run w2" "is_quote q1" "is_quote q2"
       "dir \<noteq> []" "list_all (\<lambda>c. \<not> is_quote c) dir"
       "s = ''outDir'' @ w1 @ '':'' @ w2 @ [q1] @ dir @ [q2] @ rest"
    unfolding outDir_match_def by blast
  have 1: "strip_prefix ''outDir'' s = Some (w1 @ CHR 0x3A # w2 @ q1 # dir @ q2 # rest)"
    using a(7) by (simp only: strip_prefix_Some) simp
  have 2: "skip_ws (w1 @ CHR 0x3A # w2 @ q1 # dir @ q2 # rest) = CHR 0x3A # w2 @ q1 # dir @ q2 # rest"
    using skip_ws_complete[OF a(1) ws_len_colon] by simp
  have 3: "skip_ws (w2 @ q1 # dir @ q2 # rest) = q1 # dir @ q2 # rest"
    using skip_ws_complete[OF a(2) ws_len_quote[OF a(3)]] by simp
  show "outDir_at s = Some dir"
    unfolding outDir_at_def using 1 2 3 a(3,5) group_split[OF a(6) a(4)] by simp
qed

lemma regex_match_iff:
  "regex_match pat s = Some r \<longleftrightarrow>
     (\<exists>pre t. s = pre @ t \<and> pat t = Some r \<and> (\<forall>i < length pre. pat (drop i s) = None))"
proof (induction s)
  case Nil
  then show ?case by simp
next
  case (Cons c cs)
  show ?case
  proof (cases "pat (c # cs)")
    case None
    have "(\<exists>pre t. c # cs = pre @ t \<and> pat t = Some r \<and> (\<forall>i < length pre. pat (drop i (c # cs)) = None))
      \<longleftrightarrow> (\<exists>pre t. cs = pre @ t \<and> pat t = Some r \<and> (\<forall>i < length pre. pat (drop i cs) = None))"
      (is "?L \<longleftrightarrow> ?R")
    proof
      assume ?L
      then obtain pre t where pt: "c # cs = pre @ t" "pat t = Some r"
        "\<forall>i < length pre. pat (drop i (c # cs)) = None" by blast
      from pt(1,2) None obtain pre' where pre: "pre = c # pre'" by (cases pre) auto
      with pt(1) have "cs = pre' @ t" by simp
      moreover have "\<forall>i < length pre'. pat (drop i cs) = None"
      proof (intro allI impI)
        fix i assume "i < length pre'"
        then have "Suc i < length pre" using pre by simp
        with pt(3) have "pat (drop (Suc i) (c # cs)) = None" by blast
        then show "pat (drop i cs) = None" by simp
      qed
      ultimately show ?R using pt(2) by blast
    next
      assume ?R
      then obtain pre t where pt: "cs = pre @ t" "pat t = Some r"
        "\<forall>i < length pre. pat (drop i cs) = None" by blast
      have "\<forall>i < length (c # pre). pat (drop i (c # cs)) = None"
      proof (intro allI impI)
        fix i assume i: "i < length (c # pre)"
        show "pat (drop i (c # cs)) = None"
        proof (cases i)
          case 0
          with None show ?thesis by simp
        next
          case (Suc j)
          with i pt(3) show ?thesis by simp
        qed
      qed
      with pt(1,2) show ?L by (intro exI[of _ "c # pre"] exI[of _ t]) simp
    qed
    with None Cons.IH show ?thesis by simp
  next
    case (Some r')
    have "(\<exists>pre t. c # cs = pre @ t \<and> pat t = Some r \<and> (\<forall>i < length pre. pat (drop i (c # cs)) = None))
      \<longleftrightarrow> r' = r" (is "?L \<longleftrightarrow> _")
    proof
      assume ?L
      then obtain pre t where pt: "c # cs = pre @ t" "pat t = Some r"
        "\<forall>i < length pre. pat (drop i (c # cs)) = None" by blast
      show "r' = r"
      proof (cases pre)
        case Nil
        with pt Some show ?thesis by simp
      next
        case (Cons a pre')
        with pt(3) have "pat (drop 0 (c # cs)) = None" by auto
        with Some show ?thesis by simp
      qed
    next
      assume "r' = r"
      with Some show ?L by (intro exI[of _ "[]"] exI[of _ "c # cs"]) simp
    qed
    with Some show ?thesis by simp
  qed
qed


lemma matches_export_iff: "regex_test export_at text \<longleftrightarrow> matches_export text"
  by (simp add: regex_test_iff matches_export_def export_at_iff)

lemma regex_match_outDir_iff:
  "regex_match outDir_at text = Some dir \<longleftrightarrow> first_outDir_match text dir"
proof -
  have "\<And>t. outDir_at t = None \<longleftrightarrow> (\<forall>d. \<not> outDir_match t d)"
    using outDir_at_iff by (metis not_Some_eq)
  then show ?thesis
    unfolding regex_match_iff first_outDir_match_def outDir_at_iff by simp
qed

lemma whitespace_run_Nil: "whitespace_run []"
  unfolding whitespace_run_def by (intro exI [of _ "[]"]) simp

lemma whitespace_run_space: "whitespace_run '' ''"
  unfolding whitespace_run_def by (intro exI [of _ "['' '']"]) (simp add: js_whitespace_def)

lemma outDir_literal_match:
  assumes "outDir_literal s d"
  shows "outDir_match s d"
proof -
  from assms obtain w1 w2 q rest where
    l: "whitespace_run w1" "whitespace_run w2" "is_quote q" "d \<noteq> []" "list_all plain_char d"
       \<open>s = ''outDir'' @ w1 @ '':'' @ w2 @ [q] @ d @ [q] @ rest\<close>
    unfolding outDir_literal_def by blast
  from l(5) have "list_all (\<lambda>c. \<not> is_quote c) d"
    by (simp add: list_all_iff plain_char_def)
  with l(1-4,6) show ?thesis
    unfolding outDir_match_def by blast
qed

lemma first_outDir_literal_match: "first_outDir_literal body d \<Longrightarrow> first_outDir_match body d"
  unfolding first_outDir_literal_def first_outDir_match_def using outDir_literal_match by blast

lemma no_match_before:
  assumes "list_all (\<lambda>i. outDir_at (drop i body) = None) [0..<n]"
  shows "\<forall>i < n. \<forall>d. \<not> outDir_match (drop i body) d"
  using assms unfolding list_all_iff outDir_at_iff [symmetric] by simp

section \<open>The file utilities, case by case\<close>

lemma safeReadFile_cases:
  "safeReadFile rt path bound =
     Inr (if isl (fs_access rt path) then None
          else case fs_stat rt path of
                 Inl e \<Rightarrow> None
               | Inr stats \<Rightarrow>
                   if st_size stats > bound then None
                   else (case fs_readFile rt path of Inl e \<Rightarrow> None | Inr text \<Rightarrow> Some text))"
  by (auto simp: safeReadFile_def try_catch_def bindE_def split: sum.splits)

lemma safeReadFile_Some_iff:
  "safeReadFile rt path bound = Inr (Some text) \<longleftrightarrow> file_readable rt path bound text"
  by (auto simp: safeReadFile_cases file_readable_def split: sum.splits)

lemma safeReadFile_None_iff:
  "safeReadFile rt path bound = Inr None \<longleftrightarrow> (\<forall>text. \<not> file_readable rt path bound text)"
  by (auto simp: safeReadFile_cases file_readable_def split: sum.splits)

lemma readJsonFile_cases:
  "readJsonFile rt path =
     Inr (case safeReadFile rt path defaultMaxSize of
            Inr (Some text) \<Rightarrow>
              if text = [] then Null
              else (case JSON_parse rt text of Inl e \<Rightarrow> Null | Inr v \<Rightarrow> v)
          | _ \<Rightarrow> Null)"
  by (auto simp: readJsonFile_def safeReadFile_cases try_catch_def bindE_def split: sum.splits)

section \<open>The detectors, case by case\<close>

lemma isDirectory_cases: "isDirectory rt path = Inr (directory_exists rt path)"
  by (auto simp: isDirectory_def directory_exists_def try_catch_def bindE_def split: sum.splits)

lemma orE_Inr: "orE (Inr a) (Inr b) = Inr (a \<or> b)"
  by (simp add: orE_def bindE_def)

lemma detectRouterType_cases:
  "detectRouterType rt dir =
     Inr (if directory_exists rt (path_join rt dir [''app'']) \<or>
             directory_exists rt (path_join rt dir [''src'', ''app'']) then App
          else if directory_exists rt (path_join rt dir [''pages'']) \<or>
                  directory_exists rt (path_join rt dir [''src'', ''pages'']) then Pages
          else UnknownRouter)"
  by (simp add: detectRouterType_def isDirectory_cases orE_Inr bindE_def Let_def)

lemma readPackageJson_total: "\<exists>pkg. readPackageJson rt dir = Inr pkg"
  by (simp add: readPackageJson_def readJsonFile_cases)

lemma readPackageJson_Null:
  assumes "file_missing rt (manifestPath rt dir) \<or> file_invalid_json rt (manifestPath rt dir)"
  shows "readPackageJson rt dir = Inr Null"
  using assms
  by (auto simp: readPackageJson_def manifestPath_def readJsonFile_cases safeReadFile_cases
        file_missing_def file_invalid_json_def split: sum.splits)

lemma hasRouteFiles_total: "\<exists>b. hasRouteFiles rt path = Inr b"
  by (auto simp: hasRouteFiles_def try_catch_def bindE_def split: sum.splits)

lemma detectApiRoutes_total: "\<exists>b. detectApiRoutes rt dir r = Inr b"
proof -
  obtain a where a: "hasRouteFiles rt (path_join rt dir [''app'']) = Inr a"
    using hasRouteFiles_total by blast
  obtain b where b: "hasRouteFiles rt (path_join rt dir [''src'', ''app'']) = Inr b"
    using hasRouteFiles_total by blast
  show ?thesis
    by (auto simp: detectApiRoutes_def isDirectory_cases orE_Inr a b bindE_def Let_def)
qed

lemma detectApiRoutes_unknown: "detectApiRoutes rt dir UnknownRouter = Inr False"
  by (simp add: detectApiRoutes_def)

lemma staticExportLoop_eq:
  "staticExportLoop rt dir names =
     Inr (\<exists>name \<in> set names. \<exists>text.
            file_readable rt (path_join rt dir [name]) defaultMaxSize text \<and> matches_export text)"
proof (induction names)
  case Nil
  show ?case by simp
next
  case (Cons name names)
  let ?path = "path_join rt dir [name]"
  have nil: "\<not> matches_export []"
    by (simp add: matches_export_def export_literal_def)
  show ?case
  proof (cases "safeReadFile rt ?path defaultMaxSize")
    case (Inl e)
    then show ?thesis by (simp add: safeReadFile_cases)
  next
    case (Inr r)
    show ?thesis
    proof (cases r)
      case None
      with Inr have "\<forall>text. \<not> file_readable rt ?path defaultMaxSize text"
        by (simp add: safeReadFile_None_iff)
      with Inr None Cons.IH show ?thesis by (simp add: bindE_def)
    next
      case (Some body)
      with Inr have r: "file_readable rt ?path defaultMaxSize body"
        by (simp add: safeReadFile_Some_iff)
      then have u: "\<And>t. file_readable rt ?path defaultMaxSize t \<longleftrightarrow> t = body"
        by (auto simp: file_readable_def)
      show ?thesis
        using Inr Some Cons.IH nil by (auto simp: bindE_def u matches_export_iff)
    qed
  qed
qed

lemma detectStaticExport_total: "\<exists>b. detectStaticExport rt dir = Inr b"
  by (simp add: detectStaticExport_def staticExportLoop_eq)

lemma detectNextJsProject_eq:
  assumes "readPackageJson rt dir = Inr pkg"
    and "detectRouterType rt dir = Inr r"
    and "detectApiRoutes rt dir r = Inr a"
    and "detectStaticExport rt dir = Inr s"
  shows "detectNextJsProject rt dir =
     Inr (if truthy pkg \<and>
             truthy (js_or (opt_chain (get_prop pkg ''dependencies'') ''next'')
                           (opt_chain (get_prop pkg ''devDependencies'') ''next''))
          then Some \<lparr>version = js_or (opt_chain (get_prop pkg ''dependencies'') ''next'')
                                     (opt_chain (get_prop pkg ''devDependencies'') ''next''),
                     buildCommand = js_or (opt_chain (get_prop pkg ''scripts'') ''build'')
                                          (JStr ''next build''),
                     buildOutputDir = (if s then ''out'' else ''.next''),
                     routerType = r, hasApiRoutes = a, isStaticExport = s\<rparr>
          else None)"
  using assms by (simp add: detectNextJsProject_def bindE_def Let_def)

lemma detectNextJsProject_SomeD:
  assumes "detectNextJsProject rt dir = Inr (Some m)"
  shows "detectRouterType rt dir = Inr (routerType m) \<and>
         detectApiRoutes rt dir (routerType m) = Inr (hasApiRoutes m) \<and>
         detectStaticExport rt dir = Inr (isStaticExport m) \<and>
         buildOutputDir m = (if isStaticExport m then ''out'' else ''.next'')"
proof -
  obtain pkg where 1: "readPackageJson rt dir = Inr pkg" using readPackageJson_total by blast
  obtain r where 2: "detectRouterType rt dir = Inr r" by (simp add: detectRouterType_cases)
  obtain a where 3: "detectApiRoutes rt dir r = Inr a" using detectApiRoutes_total by blast
  obtain s where 4: "detectStaticExport rt dir = Inr s" using detectStaticExport_total by blast
  from assms detectNextJsProject_eq[OF 1 2 3 4]
  have "routerType m = r" "hasApiRoutes m = a" "isStaticExport m = s"
       "buildOutputDir m = (if s then ''out'' else ''.next'')"
    by (auto split: if_splits)
  with 2 3 4 show ?thesis by simp
qed

lemma opt_chain_unlisted: "\<not> has_property v name \<Longrightarrow> opt_chain v name = Undefined"
  by (cases v) (auto simp: opt_chain_def has_property_def split: option.splits)

lemma opt_chain_version: "gives_value v name \<Longrightarrow> truthy (opt_chain v name)"
  by (cases v) (auto simp: opt_chain_def gives_value_def split: option.splits js_value.splits)

lemma versioned_truthy:
  assumes "versioned_dependency pkg name"
  shows "truthy pkg"
    and "truthy (js_or (opt_chain (get_prop pkg ''dependencies'') name)
                       (opt_chain (get_prop pkg ''devDependencies'') name))"
proof -
  from assms show "truthy pkg"
    by (cases pkg) (auto simp: versioned_dependency_def gives_value_def)
  from assms show "truthy (js_or (opt_chain (get_prop pkg ''dependencies'') name)
                       (opt_chain (get_prop pkg ''devDependencies'') name))"
    by (auto simp: versioned_dependency_def js_or_def dest: opt_chain_version)
qed

lemma unlisted_falsy:
  assumes "\<not> lists_dependency pkg name"
  shows "\<not> truthy (js_or (opt_chain (get_prop pkg ''dependencies'') name)
                         (opt_chain (get_prop pkg ''devDependencies'') name))"
  using assms by (simp add: lists_dependency_def opt_chain_unlisted js_or_def)

lemma detectViteProject_None:
  assumes "readPackageJson rt dir = Inr pkg"
    and "\<not> (truthy pkg \<and> truthy (js_or (opt_chain (get_prop pkg ''dependencies'') ''vite'')
                                        (opt_chain (get_prop pkg ''devDependencies'') ''vite'')))"
  shows "detectViteProject rt dir = Inr None"
  using assms by (auto simp: detectViteProject_def bindE_def Let_def)

lemma detectNextJsProject_None:
  assumes "readPackageJson rt dir = Inr pkg"
    and "\<not> (truthy pkg \<and> truthy (js_or (opt_chain (get_prop pkg ''dependencies'') ''next'')
                                        (opt_chain (get_prop pkg ''devDependencies'') ''next'')))"
  shows "detectNextJsProject rt dir = Inr None"
  using assms by (auto simp: detectNextJsProject_def bindE_def Let_def)

lemma file_readable_not_missing:
  "file_readable rt path bound body \<Longrightarrow> \<not> file_missing rt path"
  by (simp add: file_readable_def file_missing_def)

lemma detectFrameworkTool_no_match:
  assumes "detectViteProject rt dir = Inr None" and "detectNextJsProject rt dir = Inr None"
  shows "detectFrameworkTool rt dir = Inr (textResult (noFrameworkText dir))"
  using assms by (simp add: detectFrameworkTool_def try_catch_def bindE_def)

lemma noFrameworkText_not_error: "noFrameworkText dir \<noteq> errorText e"
  by (simp add: noFrameworkText_def errorText_def cross_mark_def)

lemma noFrameworkText_list:
  \<open>noFrameworkText dir =
     cross_mark @ '' No supported framework detected in: '' @ dir @
     ''\<newline>\<newline>Supported frameworks:\<newline>'' @
     bulletList supportedFrameworks @
     ''\<newline>Please ensure:\<newline>- package.json exists\<newline>- Framework is installed in dependencies or devDependencies''\<close>
  by (simp add: noFrameworkText_def bulletList_def supportedFrameworks_def)

lemma fileExists_cases: "fileExists rt path = Inr (\<not> file_missing rt path)"
  by (auto simp: fileExists_def file_missing_def try_catch_def bindE_def split: sum.splits)

lemma findViteConfigLoop_first:
  assumes "\<not> file_missing rt (path_join rt dir [name])"
    and "list_all (\<lambda>n. file_missing rt (path_join rt dir [n])) before"
  shows "findViteConfigLoop rt dir (before @ name # after) = Inr (Some name)"
  using assms by (induction before) (simp_all add: fileExists_cases bindE_def)

lemma findViteConfig_first:
  assumes "first_existing rt dir viteConfigNames name"
  shows "findViteConfig rt dir = Inr (Some name)" and "name \<noteq> []"
proof -
  from assms obtain before after where
    n: "viteConfigNames = before @ name # after"
    and e: "\<not> file_missing rt (path_join rt dir [name])"
    and b: "list_all (\<lambda>n. file_missing rt (path_join rt dir [n])) before"
    unfolding first_existing_def by blast
  show "findViteConfig rt dir = Inr (Some name)"
    unfolding findViteConfig_def n using e b by (rule findViteConfigLoop_first)
  have "name \<in> set viteConfigNames" unfolding n by simp
  then show "name \<noteq> []" by (auto simp: viteConfigNames_def)
qed

lemma outDir_match_nonempty: "outDir_match s d \<Longrightarrow> d \<noteq> [] \<and> s \<noteq> []"
  by (auto simp: outDir_match_def)

lemma detectBuildOutputDir_first_match:
  assumes "cfg \<noteq> []"
    and "file_readable rt (path_join rt dir [cfg]) defaultMaxSize body"
    and "first_outDir_match body d"
  shows "detectBuildOutputDir rt dir (Some cfg) = Inr d"
proof -
  from assms(3) have m: "regex_match outDir_at body = Some d"
    by (simp add: regex_match_outDir_iff)
  from assms(3) have "d \<noteq> []" "body \<noteq> []"
    unfolding first_outDir_match_def using outDir_match_nonempty by fastforce+
  moreover from assms(2) have "safeReadFile rt (path_join rt dir [cfg]) defaultMaxSize = Inr (Some body)"
    by (simp add: safeReadFile_Some_iff)
  ultimately show ?thesis
    using assms(1) m by (simp add: detectBuildOutputDir_def bindE_def)
qed

lemma detectBuildOutputDir_first_literal:
  assumes "cfg \<noteq> []"
    and "file_readable rt (path_join rt dir [cfg]) defaultMaxSize body"
    and "first_outDir_literal body d"
  shows "detectBuildOutputDir rt dir (Some cfg) = Inr d"
  using assms(1,2) first_outDir_literal_match [OF assms(3)]
  by (rule detectBuildOutputDir_first_match)

lemma detectUILibrary_react:
  assumes "versioned_dependency pkg ''react''" and "\<not> shadowed_dependency pkg ''react''"
  shows "detectUILibrary pkg = React"
proof -
  let ?d = "get_prop pkg ''dependencies''" and ?v = "get_prop pkg ''devDependencies''"
  have "case (map_of (spread ?d) ++ map_of (spread ?v)) ''react'' of None \<Rightarrow> False | Some x \<Rightarrow> truthy x"
  proof (cases "map_of (spread ?v) ''react''")
    case None
    then have "\<not> gives_value ?v ''react''"
      by (cases ?v) (auto simp: gives_value_def)
    with assms(1) have "gives_value ?d ''react''" by (simp add: versioned_dependency_def)
    then have "\<exists>x. map_of (spread ?d) ''react'' = Some x \<and> truthy x"
      by (cases ?d) (auto simp: gives_value_def split: option.splits js_value.splits)
    with None show ?thesis by (auto simp: map_add_def)
  next
    case (Some x)
    then have "truthy x" using assms(2)
      by (cases ?v) (auto simp: shadowed_dependency_def)
    with Some show ?thesis by (simp add: map_add_def)
  qed
  then show ?thesis by (simp add: detectUILibrary_def Let_def)
qed

section \<open>Where a warning can start in a specification\<close>

lemma no_start_append:
  assumes "no_start d a" and "no_start d b"
  shows "no_start d (a @ b)"
  using assms
proof (induction a)
  case Nil
  then show ?case by simp
next
  case (Cons c a)
  from Cons.prems have 1: "\<not> prefix d (c # a)" and 2: "\<not> prefix (c # a) d" and 3: "no_start d a"
    by simp_all
  have "\<not> prefix d ((c # a) @ b)"
  proof
    assume "prefix d ((c # a) @ b)"
    then have "prefix d (c # a) \<or> prefix (c # a) d"
      unfolding prefix_append by auto
    with 1 2 show False by blast
  qed
  moreover have "\<not> prefix ((c # a) @ b) d"
    using 2 append_prefixD by blast
  ultimately show ?case using Cons.IH [OF 3 Cons.prems(2)] by simp
qed

lemma no_start_suffix: "no_start d (a @ b) \<Longrightarrow> no_start d b"
  by (induction a) simp_all

lemma no_start_append_iff: "no_start d a \<Longrightarrow> no_start d (a @ b) \<longleftrightarrow> no_start d b"
  using no_start_append no_start_suffix by blast

lemma no_start_weaken:
  assumes "no_start d0 s" and "prefix d0 d"
  shows "no_start d s"
  using assms(1)
proof (induction s)
  case Nil
  then show ?case by simp
next
  case (Cons c s)
  from Cons.prems have 1: "\<not> prefix d0 (c # s)" and 2: "\<not> prefix (c # s) d0" and 3: "no_start d0 s"
    by simp_all
  have "\<not> prefix d (c # s)"
    using 1 assms(2) prefix_order.trans by blast
  moreover have "\<not> prefix (c # s) d"
  proof
    assume "prefix (c # s) d"
    with assms(2) have "prefix (c # s) d0 \<or> prefix d0 (c # s)"
      using prefix_same_cases by blast
    with 1 2 show False by blast
  qed
  ultimately show ?case using Cons.IH [OF 3] by simp
qed

lemma no_start_not_sublist:
  assumes "no_start d s" and "d \<noteq> []" and "prefix d b"
  shows "\<not> sublist b s"
proof
  assume "sublist b s"
  then obtain ps ss where s: "s = ps @ b @ ss" by (auto simp: sublist_def)
  from assms(2,3) obtain c t where b: "b @ ss = c # t" by (cases b) auto
  from assms(1) s have "no_start d (b @ ss)" using no_start_suffix by blast
  with b have "\<not> prefix d (b @ ss)" by simp
  with assms(3) show False using prefix_prefix by blast
qed

lemma sublist_inside: "sublist b s \<Longrightarrow> sublist b (pre @ s @ post)"
  by (auto simp: sublist_append)

lemma toUpperCase_nextjs: "toUpperCase ''nextjs'' = ''NEXTJS''"
  by code_simp

lemmas sign_defs = warning_star_def warning_sign_def check_mark_def command_key_def cross_mark_def
  ProjectInfo.truncate_def toUpperCase_nextjs

lemma header_clean:
  assumes "no_start warning_star name" "no_start warning_star (now_iso rt)"
    "no_start warning_star (interpolate rt (version p))"
  shows "no_start warning_star (generateHeader rt name (NextJsProject p))"
  using assms
  by (simp add: generateHeader_def no_start_append_iff sign_defs)

lemma overview_clean:
  assumes "no_start warning_star (interpolate rt (version p))"
    "no_start warning_star (interpolate rt (buildCommand p))"
    "no_start warning_star (buildOutputDir p)"
  shows "no_start warning_star (generateProjectOverview rt (NextJsProject p))"
  using assms
  by (simp add: generateProjectOverview_def no_start_append_iff sign_defs)

lemma capacitor_clean:
  assumes "no_start warning_star name" "no_start warning_star bundle"
    "no_start warning_star (buildOutputDir p)"
  shows "no_start warning_star (generateCapacitorSetup (NextJsProject p) name bundle)"
  using assms
  by (simp add: generateCapacitorSetup_def no_start_append_iff sign_defs)

lemma issues_clean: "no_start warning_star (generateCommonIssues info)"
  by (simp add: generateCommonIssues_def sign_defs)

lemma build_clean:
  assumes "no_start warning_star (interpolate rt (buildCommand p))"
  shows "no_start warning_star (generateBuildSteps rt (NextJsProject p))"
  using assms
  by (simp add: generateBuildSteps_def no_start_append_iff sign_defs)

lemma checklist_clean: "no_start warning_star generateTestingChecklist"
  by (simp add: generateTestingChecklist_def sign_defs)

lemma next_steps_clean:
  assumes "no_start warning_star (case color of None \<Rightarrow> [] | Some c \<Rightarrow> c)"
  shows "no_start warning_star (generateNextSteps color)"
  using assms
  by (cases color) (simp_all add: generateNextSteps_def no_start_append_iff sign_defs)

lemmas steps_defs =
  generateNextJsSteps_def staticExportEnabledNote_def staticExportCriticalWarning_def
  nextConfigInstructions_def apiRoutesWarning_def noApiRoutesNote_def
  appRouterConsiderations_def pagesRouterConsiderations_def

lemma steps_without_critical:
  assumes "isStaticExport p"
  shows "no_start critical_start (generateNextJsSteps (NextJsProject p))"
  using assms by (simp add: steps_defs critical_start_def sign_defs)

lemma steps_without_api:
  assumes "\<not> hasApiRoutes p"
  shows "no_start api_start (generateNextJsSteps (NextJsProject p))"
  using assms by (simp add: steps_defs api_start_def sign_defs)

lemma steps_with_critical:
  assumes "\<not> isStaticExport p"
  shows "sublist criticalWarningBlock (generateNextJsSteps (NextJsProject p))"
proof -
  have \<open>generateNextJsSteps (NextJsProject p) =
      (''## Next.js Specific Configuration\<newline>'' @ ''\<newline>'' @
       ''### 1. Enable Static Export\<newline>'' @ ''\<newline>'') @
      criticalWarningBlock @
      (''### 2. Handle Dynamic Features\<newline>'' @ ''\<newline>'' @
       (if hasApiRoutes p then apiRoutesWarning else noApiRoutesNote) @
       ''\<newline>'' @ ''\<newline>'' @
       (if routerType p = App then appRouterConsiderations else []) @
       ''\<newline>'' @ ''\<newline>'' @
       (if routerType p = Pages then pagesRouterConsiderations else []))\<close>
    using assms by (simp add: generateNextJsSteps_def criticalWarningBlock_def)
  then show ?thesis by (simp only: sublist_appendI)
qed

lemma steps_with_api:
  assumes "hasApiRoutes p"
  shows "sublist apiRoutesWarning (generateNextJsSteps (NextJsProject p))"
proof -
  have \<open>generateNextJsSteps (NextJsProject p) =
      (''## Next.js Specific Configuration\<newline>'' @ ''\<newline>'' @
       ''### 1. Enable Static Export\<newline>'' @ ''\<newline>'' @
       (if isStaticExport p then staticExportEnabledNote else staticExportCriticalWarning) @
       ''\<newline>'' @ ''\<newline>'' @
       (if \<not> isStaticExport p then nextConfigInstructions else []) @
       ''### 2. Handle Dynamic Features\<newline>'' @ ''\<newline>'') @
      apiRoutesWarning @
      (''\<newline>'' @ ''\<newline>'' @
       (if routerType p = App then appRouterConsiderations else []) @
       ''\<newline>'' @ ''\<newline>'' @
       (if routerType p = Pages then pagesRouterConsiderations else []))\<close>
    using assms by (simp add: generateNextJsSteps_def)
  then show ?thesis by (simp only: sublist_appendI)
qed

lemma spec_sections:
  \<open>generateMigrationSpec rt (NextJsProject p) options =
     (generateHeader rt (appName options) (NextJsProject p) @ ''\<newline>\<newline>'' @
      generateProjectOverview rt (NextJsProject p) @ ''\<newline>\<newline>'' @
      generateCapacitorSetup (NextJsProject p) (appName options) (bundleId options) @
      ''\<newline>\<newline>'') @
     generateNextJsSteps (NextJsProject p) @
     (''\<newline>\<newline>'' @ generateCommonIssues (NextJsProject p) @ ''\<newline>\<newline>'' @
      generateBuildSteps rt (NextJsProject p) @ ''\<newline>\<newline>'' @
      generateTestingChecklist @ ''\<newline>\<newline>'' @
      generateNextSteps (primaryColor options))\<close>
  by (simp add: generateMigrationSpec_def generateFrameworkSpecificSteps_def)

lemma warning_free_star: "warning_free s \<Longrightarrow> no_start warning_star s"
  unfolding warning_free_def
  by (erule no_start_weaken) (simp add: warning_sign_only_def sign_defs)

lemma star_weaken:
  assumes "no_start warning_star s"
  shows "no_start critical_start s" and "no_start api_start s"
  by (rule no_start_weaken [OF assms], simp add: critical_start_def api_start_def sign_defs)+

lemma blank_clean: \<open>no_start d ''\<newline>\<newline>''\<close> if "prefix warning_sign d"
  using that by (cases d) (auto simp: warning_sign_def)

lemma spec_without_start:
  assumes "list_all warning_free (interpolated rt p options)"
    and "no_start d (generateNextJsSteps (NextJsProject p))"
    and "d = critical_start \<or> d = api_start"
  shows "no_start d (generateMigrationSpec rt (NextJsProject p) options)"
proof -
  from assms(1) have h:
    "no_start warning_star (appName options)" "no_start warning_star (bundleId options)"
    "no_start warning_star (case primaryColor options of None \<Rightarrow> [] | Some c \<Rightarrow> c)"
    "no_start warning_star (now_iso rt)"
    "no_start warning_star (interpolate rt (version p))"
    "no_start warning_star (interpolate rt (buildCommand p))"
    "no_start warning_star (buildOutputDir p)"
    by (simp_all add: interpolated_def warning_free_star)
  have w: "no_start warning_star s \<Longrightarrow> no_start d s" for s
    using assms(3) star_weaken by blast
  have b: \<open>no_start d ''\<newline>\<newline>''\<close>
    using assms(3) by (intro blank_clean) (auto simp: critical_start_def api_start_def)
  show ?thesis
    unfolding spec_sections
    by (intro no_start_append b assms(2) w header_clean overview_clean capacitor_clean
          issues_clean build_clean checklist_clean next_steps_clean h)
qed

lemma critical_start_prefix: "prefix critical_start criticalWarningBlock" "critical_start \<noteq> []"
  by (simp_all add: critical_start_def criticalWarningBlock_def staticExportCriticalWarning_def
        warning_sign_def)

lemma api_start_prefix: "prefix api_start apiRoutesWarning" "api_start \<noteq> []"
  by (simp_all add: api_start_def apiRoutesWarning_def warning_sign_def)

section \<open>The example directories, evaluated\<close>

lemmas example_defs =
  example_runtime_def posix_join_def manifestPath_def readPackageJson_def readJsonFile_cases
  safeReadFile_cases defaultMaxSize_def file_missing_def file_invalid_json_def enoent_def

lemma plain_next_manifest_read:
  \<open>readPackageJson plain_next_example ''/shop'' = Inr plain_next_manifest\<close>
  \<open>readPackageJson plain_next_example ''/blog'' = Inr plain_next_manifest\<close>
  \<open>readPackageJson plain_next_example ''/docs'' = Inr plain_next_manifest\<close>
  by (simp_all add: plain_next_example_def plain_next_manifest_text_def example_defs)

lemma plain_next_versioned: \<open>versioned_dependency plain_next_manifest ''next''\<close>
  by (simp add: versioned_dependency_def gives_value_def plain_next_manifest_def)

lemma plain_next_router:
  \<open>detectRouterType plain_next_example ''/shop'' = Inr UnknownRouter\<close>
  \<open>detectRouterType plain_next_example ''/blog'' = Inr App\<close>
  \<open>detectRouterType plain_next_example ''/docs'' = Inr UnknownRouter\<close>
  by (simp_all add: detectRouterType_cases directory_exists_def plain_next_example_def
        example_runtime_def posix_join_def)

lemma plain_next_api:
  \<open>detectApiRoutes plain_next_example ''/blog'' App = Inr False\<close>
  by (simp add: detectApiRoutes_def hasRouteFiles_def try_catch_def bindE_def
        plain_next_example_def example_runtime_def posix_join_def baseName_def enoent_def)

lemma plain_next_static:
  \<open>detectStaticExport plain_next_example ''/shop'' = Inr False\<close>
  \<open>detectStaticExport plain_next_example ''/blog'' = Inr False\<close>
  \<open>detectStaticExport plain_next_example ''/docs'' = Inr True\<close>
  by (simp_all add: detectStaticExport_def nextConfigNames_def bindE_def plain_next_example_def
        example_runtime_def posix_join_def safeReadFile_cases defaultMaxSize_def
        export_at_def ws_len_def js_whitespace_def is_quote_def)

lemma plain_next_detected:
  \<open>detectNextJsProject plain_next_example ''/shop'' = Inr (Some (next_model UnknownRouter False ''.next''))\<close>
  \<open>detectNextJsProject plain_next_example ''/blog'' = Inr (Some (next_model App False ''.next''))\<close>
  \<open>detectNextJsProject plain_next_example ''/docs'' = Inr (Some (next_model UnknownRouter True ''out''))\<close>
    using detectNextJsProject_eq [OF plain_next_manifest_read(1) plain_next_router(1) detectApiRoutes_unknown plain_next_static(1)]
      detectNextJsProject_eq [OF plain_next_manifest_read(2) plain_next_router(2) plain_next_api plain_next_static(2)]
      detectNextJsProject_eq [OF plain_next_manifest_read(3) plain_next_router(3) detectApiRoutes_unknown plain_next_static(3)]
    by (simp_all add: plain_next_manifest_def next_model_def opt_chain_def js_or_def)

lemma static_site_read:
  \<open>readPackageJson static_site_example ''/landing'' = Inr static_site_manifest\<close>
  by (simp add: static_site_example_def example_defs)

lemma static_site_undetected:
  \<open>detectViteProject static_site_example ''/landing'' = Inr None\<close>
  \<open>detectNextJsProject static_site_example ''/landing'' = Inr None\<close>
  by (rule detectViteProject_None [OF static_site_read] detectNextJsProject_None [OF static_site_read],
      simp add: static_site_manifest_def opt_chain_def js_or_def)+

lemma vite_example_read:
  \<open>readPackageJson vite_example ''/dash'' = Inr dash_manifest\<close>
  \<open>readPackageJson vite_example ''/big'' = Inr dash_manifest\<close>
  \<open>readPackageJson vite_example ''/kit'' = Inr kit_manifest\<close>
  by (simp_all add: vite_example_def dash_manifest_text_def kit_manifest_text_def example_defs)

lemma dash_versioned:
  \<open>versioned_dependency dash_manifest ''vite''\<close>
  \<open>versioned_dependency dash_manifest ''react''\<close>
  \<open>\<not> shadowed_dependency dash_manifest ''react''\<close>
  by (simp_all add: versioned_dependency_def gives_value_def shadowed_dependency_def dash_manifest_def)

lemma dash_lists:
  \<open>lists_dependency dash_manifest ''vite''\<close>
  \<open>lists_dependency dash_manifest ''react''\<close>
  by (simp_all add: lists_dependency_def has_property_def dash_manifest_def)

lemma dash_first_existing:
  \<open>first_existing vite_example ''/dash''
     [''vite.config.ts'', ''vite.config.js'', ''vite.config.mjs'', ''vite.config.cjs'']
     ''vite.config.js''\<close>
  unfolding first_existing_def
  by (intro exI [of _ \<open>[''vite.config.ts'']\<close>] exI [of _ \<open>[''vite.config.mjs'', ''vite.config.cjs'']\<close>])
     (simp add: file_missing_def vite_example_def example_runtime_def posix_join_def)

lemma dash_readable:
  \<open>file_readable vite_example (path_join vite_example ''/dash'' [''vite.config.js''])
     defaultMaxSize dash_config\<close>
  by (simp add: file_readable_def vite_example_def example_runtime_def posix_join_def
        defaultMaxSize_def)

lemmas pattern_defs = outDir_at_def export_at_def ws_len_def js_whitespace_def is_quote_def

lemma dash_config_literal: \<open>first_outDir_literal dash_config ''build''\<close>
proof -
  have s: \<open>outDir_literal ''outDir: 'build' } }'' ''build''\<close>
    unfolding outDir_literal_def
    by (intro exI [of _ "[]"] exI [of _ "'' ''"] exI [of _ "CHR 0x27"] exI [of _ "'' } }''"])
       (simp add: whitespace_run_Nil whitespace_run_space is_quote_def plain_char_def)
  have n: \<open>list_all (\<lambda>i. outDir_at (drop i dash_config) = None) [0..<26]\<close>
    by code_simp
  show ?thesis
    unfolding first_outDir_literal_def
    using s no_match_before [OF n]
    by (intro exI [of _ \<open>''export default { build: { ''\<close>] exI [of _ \<open>''outDir: 'build' } }''\<close>])
       (simp add: dash_config_def)
qed

lemma oversized_length: "length oversized_config = 10485761"
  by (simp add: oversized_config_def dash_config_def)

lemma oversized_literal: \<open>regex_match outDir_at oversized_config = Some ''build''\<close>
  by (simp add: oversized_config_def dash_config_def pattern_defs)

lemma big_find: \<open>findViteConfig vite_example ''/big'' = Inr (Some ''vite.config.ts'')\<close>
  by (simp add: findViteConfig_def viteConfigNames_def fileExists_cases file_missing_def bindE_def
        vite_example_def example_runtime_def posix_join_def)

lemma big_output: \<open>detectBuildOutputDir vite_example ''/big'' (Some ''vite.config.ts'') = Inr ''dist''\<close>
  by (simp add: detectBuildOutputDir_def safeReadFile_cases bindE_def defaultMaxSize_def
        vite_example_def example_runtime_def posix_join_def)

text \<open>
  More inputs beside the one of C8. In \<open>/kit\<close> the manifest gives \<open>react\<close> a version in
  \<open>dependencies\<close> and an empty entry of \<open>devDependencies\<close> shadows it: the library is not
  recognised. In \<open>/bare\<close> the manifest declares \<open>vite\<close> with an empty version: the detector
  returns \<open>null\<close>. In a configuration with two \<open>outDir\<close> literals the first one is taken,
  and a directory that holds a quote is cut at the quote.
\<close>

lemma shadowed_react_example:
  \<open>versioned_dependency kit_manifest ''vite'' \<and> versioned_dependency kit_manifest ''react'' \<and>
   shadowed_dependency kit_manifest ''react'' \<and>
   detectViteProject vite_example ''/kit'' =
     Inr (Some \<lparr>version = JStr ''^5.2.0'', buildCommand = JStr ''vite build'',
                buildOutputDir = ''build'', uiLibrary = UnknownLibrary,
                viteConfigPath = Some ''vite.config.ts'',
                hasReactRouter = False, hasVueRouter = False\<rparr>)\<close>
proof -
  have f: \<open>findViteConfig vite_example ''/kit'' = Inr (Some ''vite.config.ts'')\<close>
    by (simp add: findViteConfig_def viteConfigNames_def fileExists_cases file_missing_def bindE_def
          vite_example_def example_runtime_def posix_join_def)
  have o: \<open>detectBuildOutputDir vite_example ''/kit'' (Some ''vite.config.ts'') = Inr ''build''\<close>
    by (simp add: detectBuildOutputDir_def safeReadFile_cases bindE_def defaultMaxSize_def
          vite_example_def example_runtime_def posix_join_def dash_config_def pattern_defs)
  have u: \<open>detectUILibrary kit_manifest = UnknownLibrary\<close>
    by (simp add: kit_manifest_def detectUILibrary_def map_add_def)
  have d: \<open>detectViteProject vite_example ''/kit'' =
     Inr (Some \<lparr>version = JStr ''^5.2.0'', buildCommand = JStr ''vite build'',
                buildOutputDir = ''build'', uiLibrary = UnknownLibrary,
                viteConfigPath = Some ''vite.config.ts'',
                hasReactRouter = False, hasVueRouter = False\<rparr>)\<close>
    using vite_example_read(3) f o u
    by (simp add: detectViteProject_def bindE_def Let_def)
       (simp add: kit_manifest_def opt_chain_def js_or_def)
  then show ?thesis
    by (simp add: versioned_dependency_def gives_value_def shadowed_dependency_def
          kit_manifest_def)
qed

lemma later_outDir_literal_example:
  \<open>outDir_literal (drop 53 two_outDir_config) ''coverage'' \<and>
   regex_match outDir_at two_outDir_config = Some ''build''\<close>
proof -
  have \<open>outDir_literal ''outDir: 'coverage' } }'' ''coverage''\<close>
    unfolding outDir_literal_def
    by (intro exI [of _ "[]"] exI [of _ "'' ''"] exI [of _ "CHR 0x27"] exI [of _ "'' } }''"])
       (simp add: whitespace_run_Nil whitespace_run_space is_quote_def plain_char_def)
  moreover have \<open>regex_match outDir_at two_outDir_config = Some ''build''\<close>
    by (simp add: two_outDir_config_def pattern_defs)
  ultimately show ?thesis by (simp add: two_outDir_config_def)
qed

lemma unversioned_read:
  \<open>readPackageJson unversioned_example ''/old'' = Inr old_manifest\<close>
  \<open>readPackageJson unversioned_example ''/bare'' = Inr bare_manifest\<close>
  by (simp_all add: unversioned_example_def old_manifest_text_def bare_manifest_text_def example_defs)

lemma old_lists_next: \<open>lists_dependency old_manifest ''next''\<close>
  by (simp add: lists_dependency_def has_property_def old_manifest_def)

lemma old_no_config:
  \<open>list_all (\<lambda>name. file_missing unversioned_example (path_join unversioned_example ''/old'' [name]))
     [''next.config.js'', ''next.config.mjs'', ''next.config.ts'']\<close>
  by (simp add: file_missing_def unversioned_example_def example_runtime_def posix_join_def)

lemma old_undetected: \<open>detectNextJsProject unversioned_example ''/old'' = Inr None\<close>
  by (rule detectNextJsProject_None [OF unversioned_read(1)])
     (simp add: old_manifest_def opt_chain_def js_or_def)

lemma unversioned_vite_example:
  \<open>lists_dependency bare_manifest ''vite'' \<and> lists_dependency bare_manifest ''react'' \<and>
   detectViteProject unversioned_example ''/bare'' = Inr None\<close>
proof -
  have \<open>detectViteProject unversioned_example ''/bare'' = Inr None\<close>
    by (rule detectViteProject_None [OF unversioned_read(2)])
       (simp add: bare_manifest_def opt_chain_def js_or_def)
  then show ?thesis
    by (simp add: lists_dependency_def has_property_def bare_manifest_def)
qed

lemma quoted_dir_example:
  \<open>regex_match outDir_at quoted_dir_config = Some ''it'' \<and>
   (\<forall>d. \<not> outDir_literal (drop 26 quoted_dir_config) d)\<close>
proof -
  have m: \<open>regex_match outDir_at quoted_dir_config = Some ''it''\<close>
    by (simp add: quoted_dir_config_def pattern_defs)
  have a: \<open>outDir_at (drop 26 quoted_dir_config) = Some ''it''\<close>
    by (simp add: quoted_dir_config_def pattern_defs)
  have \<open>\<not> outDir_literal (drop 26 quoted_dir_config) d\<close> for d
  proof
    assume l: \<open>outDir_literal (drop 26 quoted_dir_config) d\<close>
    then have "outDir_match (drop 26 quoted_dir_config) d" by (rule outDir_literal_match)
    with a have d: "d = ''it''" by (simp add: outDir_at_iff [symmetric])
    from l obtain w1 w2 q rest where
      w: "whitespace_run w1" "whitespace_run w2" "is_quote q"
      and e: \<open>drop 26 quoted_dir_config = ''outDir'' @ w1 @ '':'' @ w2 @ [q] @ d @ [q] @ rest\<close>
      unfolding outDir_literal_def by blast
    have 1: \<open>skip_ws (w1 @ '':'' @ w2 @ [q] @ d @ [q] @ rest) = '':'' @ w2 @ [q] @ d @ [q] @ rest\<close>
      using skip_ws_complete [OF w(1) ws_len_colon] by simp
    have 2: \<open>skip_ws (w2 @ [q] @ d @ [q] @ rest) = [q] @ d @ [q] @ rest\<close>
      using skip_ws_complete [OF w(2) ws_len_quote [OF w(3)]] by simp
    have \<open>skip_ws '': "it's-dist" } }'' = '': "it's-dist" } }''\<close>
      by (simp add: pattern_defs)
    moreover have \<open>skip_ws '' "it's-dist" } }'' = ''"it's-dist" } }''\<close>
      by (simp add: pattern_defs)
    moreover from e have \<open>'': "it's-dist" } }'' = w1 @ '':'' @ w2 @ [q] @ d @ [q] @ rest\<close>
      by (simp add: quoted_dir_config_def)
    ultimately have \<open>''"it's-dist" } }'' = [q] @ d @ [q] @ rest\<close>
      using 1 2 by (metis append_Cons append_Nil list.inject)
    with d show False by auto
  qed
  with m show ?thesis by blast
qed

lemma blog_interpolated:
  "list_all warning_free (interpolated plain_next_example (next_model App False ''.next'') blog_options)"
  "list_all warning_free (interpolated plain_next_example exported_api_model blog_options)"
  by (simp_all add: interpolated_def warning_free_def warning_sign_only_def blog_options_def
        next_model_def exported_api_model_def interpolate_def plain_next_example_def
        example_runtime_def)

section \<open>The claims\<close>

text \<open>
  C1, amended. For every Next.js project model and all options, the specification holds
  the static-export critical-warning block when \<open>isStaticExport\<close> is false and the API
  routes warning when \<open>hasApiRoutes\<close> is true; and when none of the strings it interpolates
  (application name, bundle identifier, primary colour, time stamp, version, build command,
  build output directory) holds a warning sign, it holds the critical-warning block only
  when \<open>isStaticExport\<close> is false and the API routes warning only when \<open>hasApiRoutes\<close> is
  true: each of the four combinations of the two fields gives its combination of blocks.

  As stated, for all options, the claim fails: the application name is copied into the
  header, so a name that is the text of the block puts the block into the specification
  of a project with static export.
\<close>

theorem warning_blocks_follow_model:
  fixes rt p options
  defines "spec \<equiv> generateMigrationSpec rt (NextJsProject p) options"
  shows "(\<not> isStaticExport p \<longrightarrow> sublist criticalWarningBlock spec) \<and>
         (hasApiRoutes p \<longrightarrow> sublist apiRoutesWarning spec) \<and>
         (list_all warning_free (interpolated rt p options) \<longrightarrow>
            (sublist criticalWarningBlock spec \<longleftrightarrow> \<not> isStaticExport p) \<and>
            (sublist apiRoutesWarning spec \<longleftrightarrow> hasApiRoutes p))"
proof -
  have c: "sublist criticalWarningBlock spec" if "\<not> isStaticExport p"
    unfolding spec_def spec_sections using steps_with_critical [OF that] by (rule sublist_inside)
  have a: "sublist apiRoutesWarning spec" if "hasApiRoutes p"
    unfolding spec_def spec_sections using steps_with_api [OF that] by (rule sublist_inside)
  have nc: "\<not> sublist criticalWarningBlock spec"
    if "list_all warning_free (interpolated rt p options)" "isStaticExport p"
    unfolding spec_def
    using spec_without_start [OF that(1) steps_without_critical [OF that(2)]]
      critical_start_prefix no_start_not_sublist by blast
  have na: "\<not> sublist apiRoutesWarning spec"
    if "list_all warning_free (interpolated rt p options)" "\<not> hasApiRoutes p"
    unfolding spec_def
    using spec_without_start [OF that(1) steps_without_api [OF that(2)]]
      api_start_prefix no_start_not_sublist by blast
  from c a nc na show ?thesis by blast
qed

theorem warning_blocks_follow_model_witness:
  "list_all warning_free (interpolated plain_next_example (next_model App False ''.next'') blog_options) \<and>
   sublist criticalWarningBlock
     (generateMigrationSpec plain_next_example (NextJsProject (next_model App False ''.next'')) blog_options) \<and>
   \<not> sublist apiRoutesWarning
     (generateMigrationSpec plain_next_example (NextJsProject (next_model App False ''.next'')) blog_options) \<and>
   list_all warning_free (interpolated plain_next_example exported_api_model blog_options) \<and>
   \<not> sublist criticalWarningBlock
     (generateMigrationSpec plain_next_example (NextJsProject exported_api_model) blog_options) \<and>
   sublist apiRoutesWarning
     (generateMigrationSpec plain_next_example (NextJsProject exported_api_model) blog_options)"
  using blog_interpolated
    warning_blocks_follow_model
      [where p = "next_model App False ''.next''" and rt = plain_next_example and options = blog_options]
    warning_blocks_follow_model
      [where p = exported_api_model and rt = plain_next_example and options = blog_options]
  by (simp add: next_model_def exported_api_model_def)

theorem injected_warning_block_counterexample:
  "isStaticExport (next_model UnknownRouter True ''out'') \<and>
   sublist criticalWarningBlock
     (generateMigrationSpec plain_next_example
        (NextJsProject (next_model UnknownRouter True ''out'')) injected_options)"
proof -
  have "generateHeader plain_next_example (appName injected_options)
          (NextJsProject (next_model UnknownRouter True ''out'')) =
        ''# iOS Migration Specification: '' @ criticalWarningBlock @
        (''\<newline>'' @ ''\<newline>'' @ ''Generated: '' @ now_iso plain_next_example @ ''\<newline>'' @
         ''Framework: '' @ toUpperCase (frameworkName nextjs) @ ''\<newline>'' @
         ''Version: '' @ interpolate plain_next_example (version (next_model UnknownRouter True ''out'')) @
         ''\<newline>'' @ ''\<newline>'' @ ''---'')"
    by (simp add: generateHeader_def injected_options_def ProjectInfo.truncate_def)
  then have "sublist criticalWarningBlock
     (generateHeader plain_next_example (appName injected_options)
          (NextJsProject (next_model UnknownRouter True ''out'')))"
    by (simp only: sublist_appendI)
  then have "sublist criticalWarningBlock
     (generateMigrationSpec plain_next_example
        (NextJsProject (next_model UnknownRouter True ''out'')) injected_options)"
    unfolding spec_sections by (auto simp: sublist_append)
  then show ?thesis by (simp add: next_model_def)
qed

text \<open>
  C2. Each detector returns \<open>null\<close>, never a model, whenever the manifest is missing or its
  content is not valid JSON, or the signature dependency (\<open>vite\<close>, respectively \<open>next\<close>)
  appears neither in \<open>dependencies\<close> nor in \<open>devDependencies\<close> of the manifest as read.
\<close>

theorem detectors_absent_without_manifest_or_dependency:
  assumes "readPackageJson rt dir = Inr pkg"
  shows "(file_missing rt (manifestPath rt dir) \<or> file_invalid_json rt (manifestPath rt dir) \<or>
          \<not> lists_dependency pkg ''vite'' \<longrightarrow> detectViteProject rt dir = Inr None) \<and>
         (file_missing rt (manifestPath rt dir) \<or> file_invalid_json rt (manifestPath rt dir) \<or>
          \<not> lists_dependency pkg ''next'' \<longrightarrow> detectNextJsProject rt dir = Inr None)"
proof (intro conjI impI)
  assume h: "file_missing rt (manifestPath rt dir) \<or> file_invalid_json rt (manifestPath rt dir) \<or>
          \<not> lists_dependency pkg ''vite''"
  show "detectViteProject rt dir = Inr None"
  proof (cases "lists_dependency pkg ''vite''")
    case True
    with h assms have "pkg = Null" using readPackageJson_Null[of rt dir] by auto
    with assms show ?thesis by (intro detectViteProject_None[of rt dir pkg]) simp_all
  next
    case False
    with assms show ?thesis
      by (intro detectViteProject_None[of rt dir pkg]) (simp_all add: unlisted_falsy)
  qed
next
  assume h: "file_missing rt (manifestPath rt dir) \<or> file_invalid_json rt (manifestPath rt dir) \<or>
          \<not> lists_dependency pkg ''next''"
  show "detectNextJsProject rt dir = Inr None"
  proof (cases "lists_dependency pkg ''next''")
    case True
    with h assms have "pkg = Null" using readPackageJson_Null[of rt dir] by auto
    with assms show ?thesis by (intro detectNextJsProject_None[of rt dir pkg]) simp_all
  next
    case False
    with assms show ?thesis
      by (intro detectNextJsProject_None[of rt dir pkg]) (simp_all add: unlisted_falsy)
  qed
qed

theorem detectors_absent_without_manifest_or_dependency_witness:
  \<open>readPackageJson static_site_example ''/landing'' = Inr static_site_manifest \<and>
   \<not> lists_dependency static_site_manifest ''vite'' \<and>
   \<not> lists_dependency static_site_manifest ''next'' \<and>
   detectViteProject static_site_example ''/landing'' = Inr None \<and>
   detectNextJsProject static_site_example ''/landing'' = Inr None \<and>
   readPackageJson static_site_example ''/elsewhere'' = Inr Null \<and>
   file_missing static_site_example (manifestPath static_site_example ''/elsewhere'') \<and>
   detectViteProject static_site_example ''/elsewhere'' = Inr None \<and>
   detectNextJsProject static_site_example ''/elsewhere'' = Inr None\<close>
proof -
  have 1: \<open>readPackageJson static_site_example ''/landing'' = Inr static_site_manifest\<close>
    by (simp add: static_site_example_def example_defs)
  have 2: \<open>\<not> lists_dependency static_site_manifest ''vite''\<close>
       \<open>\<not> lists_dependency static_site_manifest ''next''\<close>
    by (simp_all add: lists_dependency_def has_property_def static_site_manifest_def)
  have 3: \<open>readPackageJson static_site_example ''/elsewhere'' = Inr Null\<close>
    by (simp add: static_site_example_def example_defs)
  have 4: \<open>file_missing static_site_example (manifestPath static_site_example ''/elsewhere'')\<close>
    by (simp add: static_site_example_def example_defs)
  show ?thesis
    using 1 2 3 4
      detectors_absent_without_manifest_or_dependency [OF 1]
      detectors_absent_without_manifest_or_dependency [OF 3]
    by simp
qed

text \<open>
  C3. When an app-router directory (\<open>app\<close> or \<open>src/app\<close>) and a pages-router directory
  (\<open>pages\<close> or \<open>src/pages\<close>) both exist, router-type detection returns \<open>app\<close>.
\<close>

theorem app_router_takes_priority:
  assumes "directory_exists rt (path_join rt dir [''app'']) \<or>
           directory_exists rt (path_join rt dir [''src'', ''app''])"
    and "directory_exists rt (path_join rt dir [''pages'']) \<or>
         directory_exists rt (path_join rt dir [''src'', ''pages''])"
  shows "detectRouterType rt dir = Inr App"
  using assms by (simp add: detectRouterType_cases)

theorem app_router_takes_priority_witness:
  \<open>directory_exists migrating_example (path_join migrating_example ''/site'' [''src'', ''app'']) \<and>
   directory_exists migrating_example (path_join migrating_example ''/site'' [''pages'']) \<and>
   detectRouterType migrating_example ''/site'' = Inr App\<close>
proof -
  have a: \<open>directory_exists migrating_example (path_join migrating_example ''/site'' [''src'', ''app''])\<close>
    by (simp add: directory_exists_def migrating_example_def example_runtime_def posix_join_def)
  have b: \<open>directory_exists migrating_example (path_join migrating_example ''/site'' [''pages''])\<close>
    by (simp add: directory_exists_def migrating_example_def example_runtime_def posix_join_def)
  from a b app_router_takes_priority [of migrating_example \<open>''/site''\<close>] show ?thesis by simp
qed

text \<open>
  C4, amended. When the manifest is read and gives \<open>next\<close> a version (a value that is not
  falsy, for a string a version that is not empty) in \<open>dependencies\<close> or
  \<open>devDependencies\<close>, and none of \<open>next.config.js\<close>, \<open>next.config.mjs\<close>, \<open>next.config.ts\<close>
  exists, the Next.js detector returns a model with \<open>isStaticExport\<close> false and
  \<open>buildOutputDir\<close> equal to \<open>.next\<close>.

  As stated, for every manifest that declares \<open>next\<close>, the claim fails: the manifest of
  \<open>/old\<close> declares \<open>next\<close> with the empty version and the directory holds no configuration
  file; \<open>nextVersion\<close> is falsy and the detector returns \<open>null\<close>, no model.
\<close>

theorem nextjs_defaults_without_config:
  assumes "readPackageJson rt dir = Inr pkg"
    and "versioned_dependency pkg ''next''"
    and "list_all (\<lambda>name. file_missing rt (path_join rt dir [name]))
           [''next.config.js'', ''next.config.mjs'', ''next.config.ts'']"
  shows "\<exists>m. detectNextJsProject rt dir = Inr (Some m) \<and>
             isStaticExport m = False \<and> buildOutputDir m = ''.next''"
proof -
  obtain r where 2: "detectRouterType rt dir = Inr r" by (simp add: detectRouterType_cases)
  obtain a where 3: "detectApiRoutes rt dir r = Inr a" using detectApiRoutes_total by blast
  have 4: "detectStaticExport rt dir = Inr False"
    using assms(3) file_readable_not_missing [of rt _ defaultMaxSize]
    by (auto simp: detectStaticExport_def nextConfigNames_def staticExportLoop_eq)
  show ?thesis
    using detectNextJsProject_eq [OF assms(1) 2 3 4] versioned_truthy [OF assms(2)]
    by simp
qed

theorem nextjs_defaults_without_config_witness:
  \<open>readPackageJson plain_next_example ''/shop'' = Inr plain_next_manifest \<and>
   versioned_dependency plain_next_manifest ''next'' \<and>
   list_all (\<lambda>name. file_missing plain_next_example (path_join plain_next_example ''/shop'' [name]))
     [''next.config.js'', ''next.config.mjs'', ''next.config.ts''] \<and>
   (\<exists>m. detectNextJsProject plain_next_example ''/shop'' = Inr (Some m) \<and>
        isStaticExport m = False \<and> buildOutputDir m = ''.next'')\<close>
proof -
  have c: \<open>list_all (\<lambda>name. file_missing plain_next_example (path_join plain_next_example ''/shop'' [name]))
     [''next.config.js'', ''next.config.mjs'', ''next.config.ts'']\<close>
    by (simp add: file_missing_def plain_next_example_def example_runtime_def posix_join_def)
  from nextjs_defaults_without_config [OF plain_next_manifest_read(1) plain_next_versioned c]
    plain_next_manifest_read(1) plain_next_versioned c
  show ?thesis by simp
qed

theorem empty_next_version_counterexample:
  \<open>readPackageJson unversioned_example ''/old'' = Inr old_manifest \<and>
   lists_dependency old_manifest ''next'' \<and>
   get_prop (get_prop old_manifest ''dependencies'') ''next'' = JStr [] \<and>
   list_all (\<lambda>name. file_missing unversioned_example (path_join unversioned_example ''/old'' [name]))
     [''next.config.js'', ''next.config.mjs'', ''next.config.ts''] \<and>
   detectNextJsProject unversioned_example ''/old'' = Inr None\<close>
  using unversioned_read(1) old_lists_next old_no_config old_undetected
  by (simp add: old_manifest_def)

text \<open>
  C5. Static-export detection returns true if and only if one of the three candidate
  configuration files exists, is readable within the size bound and has a content that
  matches the export pattern (\<open>output\<close>, a colon and \<open>export\<close> in quotes of either style,
  with optional white space); so it never returns true without a literal match, and a
  computed setting gives false.
\<close>

theorem static_export_iff_literal_match:
  "detectStaticExport rt dir =
     Inr (\<exists>name \<in> set [''next.config.js'', ''next.config.mjs'', ''next.config.ts''].
          \<exists>body. file_readable rt (path_join rt dir [name]) defaultMaxSize body \<and>
                 matches_export body)"
  using staticExportLoop_eq [of rt dir nextConfigNames]
  by (simp add: detectStaticExport_def nextConfigNames_def)

theorem static_export_iff_literal_match_witness:
  \<open>detectStaticExport plain_next_example ''/docs'' = Inr True \<and>
   file_readable plain_next_example (path_join plain_next_example ''/docs'' [''next.config.mjs''])
     defaultMaxSize ''export default { distDir: 'build', output : "export" }'' \<and>
   detectStaticExport plain_next_example ''/blog'' = Inr False \<and>
   \<not> matches_export ''module.exports = { distDir: 'build', output: process.env.OUT }''\<close>
proof -
  have r: \<open>file_readable plain_next_example (path_join plain_next_example ''/docs'' [''next.config.mjs''])
     defaultMaxSize ''export default { distDir: 'build', output : "export" }''\<close>
    by (simp add: file_readable_def plain_next_example_def example_runtime_def posix_join_def
          defaultMaxSize_def)
  have n: \<open>\<not> matches_export ''module.exports = { distDir: 'build', output: process.env.OUT }''\<close>
    unfolding matches_export_iff [symmetric]
    by (simp add: export_at_def ws_len_def js_whitespace_def is_quote_def)
  from r n static_export_iff_literal_match [of plain_next_example \<open>''/docs''\<close>]
    static_export_iff_literal_match [of plain_next_example \<open>''/blog''\<close>] plain_next_static
  show ?thesis by simp
qed

text \<open>
  C6. For every file path the file utilities never raise: \<open>safeReadFile\<close> and
  \<open>readJsonFile\<close> always return. \<open>safeReadFile\<close> returns \<open>null\<close> when the file is missing or
  exceeds the size bound, and \<open>readJsonFile\<close> returns \<open>null\<close> when the file is missing,
  exceeds the default bound of 10 MiB, or holds a content that is not valid JSON.
\<close>

theorem file_access_never_raises:
  "(\<exists>r. safeReadFile rt path bound = Inr r) \<and>
   (\<exists>v. readJsonFile rt path = Inr v) \<and>
   (file_missing rt path \<or> file_exceeds rt path bound \<longrightarrow>
      safeReadFile rt path bound = Inr None) \<and>
   (file_missing rt path \<or> file_exceeds rt path defaultMaxSize \<or> file_invalid_json rt path \<longrightarrow>
      readJsonFile rt path = Inr Null) \<and>
   defaultMaxSize = 10 * 2 ^ 20"
proof (intro conjI impI)
  show "\<exists>r. safeReadFile rt path bound = Inr r" by (simp add: safeReadFile_cases)
  show "\<exists>v. readJsonFile rt path = Inr v" by (simp add: readJsonFile_cases)
  show "safeReadFile rt path bound = Inr None"
    if "file_missing rt path \<or> file_exceeds rt path bound"
    using that by (auto simp: safeReadFile_cases file_missing_def file_exceeds_def split: sum.splits)
  show "readJsonFile rt path = Inr Null"
    if "file_missing rt path \<or> file_exceeds rt path defaultMaxSize \<or> file_invalid_json rt path"
    using that
    by (auto simp: readJsonFile_cases safeReadFile_cases file_missing_def file_exceeds_def
          file_invalid_json_def split: sum.splits)
  show "defaultMaxSize = 10 * 2 ^ 20" by (simp add: defaultMaxSize_def)
qed

theorem file_access_never_raises_witness:
  \<open>file_missing facade_example ''/app/tsconfig.json'' \<and>
   file_exceeds facade_example ''/app/video.bin'' defaultMaxSize \<and>
   file_invalid_json facade_example ''/app/package.json'' \<and>
   safeReadFile facade_example ''/app/tsconfig.json'' defaultMaxSize = Inr None \<and>
   safeReadFile facade_example ''/app/video.bin'' defaultMaxSize = Inr None \<and>
   readJsonFile facade_example ''/app/tsconfig.json'' = Inr Null \<and>
   readJsonFile facade_example ''/app/video.bin'' = Inr Null \<and>
   readJsonFile facade_example ''/app/package.json'' = Inr Null\<close>
proof -
  have m: \<open>file_missing facade_example ''/app/tsconfig.json''\<close>
    by (simp add: file_missing_def facade_example_def example_runtime_def)
  have x: \<open>file_exceeds facade_example ''/app/video.bin'' defaultMaxSize\<close>
    by (simp add: file_exceeds_def facade_example_def example_runtime_def defaultMaxSize_def)
  have j: \<open>file_invalid_json facade_example ''/app/package.json''\<close>
    by (simp add: file_invalid_json_def facade_example_def example_runtime_def)
  show ?thesis
    using m x j
      file_access_never_raises [of facade_example \<open>''/app/tsconfig.json''\<close> defaultMaxSize]
      file_access_never_raises [of facade_example \<open>''/app/video.bin''\<close> defaultMaxSize]
      file_access_never_raises [of facade_example \<open>''/app/package.json''\<close> defaultMaxSize]
    by simp
qed

text \<open>
  C7. When both detectors return \<open>null\<close>, the detect tool returns a text result that is
  not the error text and that holds, after the line \<open>Supported frameworks:\<close>, the list of
  the supported frameworks; the list is not empty and names Vite and Next.js, the two
  frameworks with a detector.
\<close>

theorem no_match_lists_supported_frameworks:
  assumes "detectViteProject rt dir = Inr None" and "detectNextJsProject rt dir = Inr None"
  shows \<open>detectFrameworkTool rt dir = Inr (textResult (noFrameworkText dir)) \<and>
         (\<forall>e. noFrameworkText dir \<noteq> errorText e) \<and>
         noFrameworkText dir =
           cross_mark @ '' No supported framework detected in: '' @ dir @
           ''\<newline>\<newline>Supported frameworks:\<newline>'' @
           bulletList supportedFrameworks @
           ''\<newline>Please ensure:\<newline>- package.json exists\<newline>- Framework is installed in dependencies or devDependencies'' \<and>
         supportedFrameworks \<noteq> [] \<and>
         list_ex (prefix ''Vite'') supportedFrameworks \<and>
         list_ex (prefix ''Next.js'') supportedFrameworks\<close>
proof (intro conjI allI)
  show "detectFrameworkTool rt dir = Inr (textResult (noFrameworkText dir))"
    using assms by (rule detectFrameworkTool_no_match)
  show "noFrameworkText dir \<noteq> errorText e" for e by (rule noFrameworkText_not_error)
  show \<open>noFrameworkText dir =
           cross_mark @ '' No supported framework detected in: '' @ dir @
           ''\<newline>\<newline>Supported frameworks:\<newline>'' @
           bulletList supportedFrameworks @
           ''\<newline>Please ensure:\<newline>- package.json exists\<newline>- Framework is installed in dependencies or devDependencies''\<close>
    by (rule noFrameworkText_list)
  show "supportedFrameworks \<noteq> []" by (simp add: supportedFrameworks_def)
  show "list_ex (prefix ''Vite'') supportedFrameworks"
    by (simp add: supportedFrameworks_def)
  show "list_ex (prefix ''Next.js'') supportedFrameworks"
    by (simp add: supportedFrameworks_def)
qed

theorem no_match_lists_supported_frameworks_witness:
  \<open>detectViteProject static_site_example ''/landing'' = Inr None \<and>
   detectNextJsProject static_site_example ''/landing'' = Inr None \<and>
   detectFrameworkTool static_site_example ''/landing'' =
     Inr (textResult (noFrameworkText ''/landing''))\<close>
  using no_match_lists_supported_frameworks [OF static_site_undetected] static_site_undetected
  by simp

text \<open>
  C8, amended. When the manifest is read, gives \<open>vite\<close> a version and gives \<open>react\<close> a
  version (each a value that is not falsy, in \<open>dependencies\<close> or \<open>devDependencies\<close>),
  \<open>react\<close> is not shadowed, the first existing Vite configuration file (in the order
  \<open>vite.config.ts\<close>, \<open>vite.config.js\<close>, \<open>vite.config.mjs\<close>, \<open>vite.config.cjs\<close>) is readable
  within the bound of 10 MiB, and its content holds an \<open>outDir\<close> literal for a directory
  (the directory between two quotes of the same kind, not empty and of plain characters)
  before which no match of the \<open>outDir\<close> pattern starts, the Vite detector returns a model
  with \<open>uiLibrary\<close> \<open>react\<close>, that directory as \<open>buildOutputDir\<close> and that file as
  \<open>viteConfigPath\<close>.

  As stated, without the bound, the claim fails: in \<open>/big\<close> the manifest gives both
  dependencies a version, and the configuration file holds the literal and is one byte
  beyond the bound, so it is not read and \<open>buildOutputDir\<close> stays \<open>dist\<close>.
\<close>

theorem vite_react_custom_build_output:
  assumes "readPackageJson rt dir = Inr pkg"
    and "versioned_dependency pkg ''vite''"
    and "versioned_dependency pkg ''react''"
    and "\<not> shadowed_dependency pkg ''react''"
    and "first_existing rt dir
           [''vite.config.ts'', ''vite.config.js'', ''vite.config.mjs'', ''vite.config.cjs''] cfg"
    and "file_readable rt (path_join rt dir [cfg]) defaultMaxSize body"
    and "first_outDir_literal body d"
  shows "\<exists>m. detectViteProject rt dir = Inr (Some m) \<and>
             uiLibrary m = React \<and> buildOutputDir m = d \<and> viteConfigPath m = Some cfg"
proof -
  have f: "first_existing rt dir viteConfigNames cfg"
    using assms(5) by (simp add: viteConfigNames_def)
  note c = findViteConfig_first [OF f]
  note b = detectBuildOutputDir_first_literal [OF c(2) assms(6) assms(7)]
  note u = detectUILibrary_react [OF assms(3) assms(4)]
  show ?thesis
    using assms(1) versioned_truthy [OF assms(2)] c(1) b u
    by (simp add: detectViteProject_def bindE_def Let_def)
qed

theorem vite_react_custom_build_output_witness:
  \<open>readPackageJson vite_example ''/dash'' = Inr dash_manifest \<and>
   versioned_dependency dash_manifest ''vite'' \<and>
   versioned_dependency dash_manifest ''react'' \<and>
   \<not> shadowed_dependency dash_manifest ''react'' \<and>
   first_existing vite_example ''/dash''
     [''vite.config.ts'', ''vite.config.js'', ''vite.config.mjs'', ''vite.config.cjs'']
     ''vite.config.js'' \<and>
   file_readable vite_example (path_join vite_example ''/dash'' [''vite.config.js''])
     defaultMaxSize dash_config \<and>
   first_outDir_literal dash_config ''build'' \<and>
   (\<exists>m. detectViteProject vite_example ''/dash'' = Inr (Some m) \<and>
        uiLibrary m = React \<and> buildOutputDir m = ''build'' \<and>
        viteConfigPath m = Some ''vite.config.js'')\<close>
  using vite_react_custom_build_output
          [OF vite_example_read(1) dash_versioned dash_first_existing dash_readable dash_config_literal]
        vite_example_read(1) dash_versioned dash_first_existing dash_readable dash_config_literal
  by simp

theorem vite_config_beyond_bound_counterexample:
  \<open>readPackageJson vite_example ''/big'' = Inr dash_manifest \<and>
   lists_dependency dash_manifest ''vite'' \<and>
   lists_dependency dash_manifest ''react'' \<and>
   versioned_dependency dash_manifest ''vite'' \<and>
   versioned_dependency dash_manifest ''react'' \<and>
   \<not> shadowed_dependency dash_manifest ''react'' \<and>
   findViteConfig vite_example ''/big'' = Inr (Some ''vite.config.ts'') \<and>
   fs_stat vite_example ''/big/vite.config.ts'' = Inr \<lparr>st_size = 10485761, st_isDirectory = False\<rparr> \<and>
   fs_readFile vite_example ''/big/vite.config.ts'' = Inr oversized_config \<and>
   length oversized_config = 10485761 \<and>
   regex_match outDir_at oversized_config = Some ''build'' \<and>
   detectViteProject vite_example ''/big'' =
     Inr (Some \<lparr>version = JStr ''^5.2.0'', buildCommand = JStr ''tsc && vite build'',
                buildOutputDir = ''dist'', uiLibrary = React,
                viteConfigPath = Some ''vite.config.ts'',
                hasReactRouter = False, hasVueRouter = False\<rparr>)\<close>
proof -
  have s: \<open>fs_stat vite_example ''/big/vite.config.ts'' = Inr \<lparr>st_size = 10485761, st_isDirectory = False\<rparr>\<close>
    and r: \<open>fs_readFile vite_example ''/big/vite.config.ts'' = Inr oversized_config\<close>
    by (simp_all add: vite_example_def example_runtime_def)
  have d: \<open>detectViteProject vite_example ''/big'' =
     Inr (Some \<lparr>version = JStr ''^5.2.0'', buildCommand = JStr ''tsc && vite build'',
                buildOutputDir = ''dist'', uiLibrary = React,
                viteConfigPath = Some ''vite.config.ts'',
                hasReactRouter = False, hasVueRouter = False\<rparr>)\<close>
    using vite_example_read(2) big_find big_output detectUILibrary_react [OF dash_versioned(2,3)]
    by (simp add: detectViteProject_def bindE_def Let_def)
       (simp add: dash_manifest_def opt_chain_def js_or_def)
  show ?thesis
    using vite_example_read(2) dash_lists dash_versioned big_find s r oversized_length oversized_literal d
    by simp
qed

text \<open>
  C9. When router-type detection returns \<open>unknown\<close>, the model the Next.js detector returns
  has \<open>hasApiRoutes\<close> false: for that router type the detection of API routes returns false
  whatever the directory holds.
\<close>

theorem unknown_router_has_no_api_routes:
  assumes "detectRouterType rt dir = Inr UnknownRouter"
    and "detectNextJsProject rt dir = Inr (Some m)"
  shows "routerType m = UnknownRouter \<and> hasApiRoutes m = False \<and>
         (\<forall>rt' dir'. detectApiRoutes rt' dir' UnknownRouter = Inr False)"
  using assms detectNextJsProject_SomeD [OF assms(2)]
  by (auto simp: detectApiRoutes_unknown)

theorem unknown_router_has_no_api_routes_witness:
  \<open>detectRouterType plain_next_example ''/shop'' = Inr UnknownRouter \<and>
   detectNextJsProject plain_next_example ''/shop'' = Inr (Some (next_model UnknownRouter False ''.next'')) \<and>
   hasApiRoutes (next_model UnknownRouter False ''.next'') = False\<close>
  using unknown_router_has_no_api_routes [OF plain_next_router(1) plain_next_detected(1)]
    plain_next_router(1) plain_next_detected(1)
  by simp

text \<open>
  C10. Every model the Next.js detector returns has \<open>buildOutputDir\<close> equal to \<open>out\<close> when
  \<open>isStaticExport\<close> is true and to \<open>.next\<close> otherwise; what a configuration file says about
  the build directory has no part in it.
\<close>

theorem nextjs_build_output_dir_follows_static_export:
  assumes "detectNextJsProject rt dir = Inr (Some m)"
  shows "buildOutputDir m = (if isStaticExport m then ''out'' else ''.next'')"
  using detectNextJsProject_SomeD [OF assms] by simp

theorem nextjs_build_output_dir_follows_static_export_witness:
  \<open>detectNextJsProject plain_next_example ''/blog'' = Inr (Some (next_model App False ''.next'')) \<and>
   buildOutputDir (next_model App False ''.next'') = ''.next'' \<and>
   detectNextJsProject plain_next_example ''/docs'' = Inr (Some (next_model UnknownRouter True ''out'')) \<and>
   buildOutputDir (next_model UnknownRouter True ''out'') = ''out''\<close>
  using nextjs_build_output_dir_follows_static_export [OF plain_next_detected(2)]
    nextjs_build_output_dir_follows_static_export [OF plain_next_detected(3)]
    plain_next_detected
  by (simp add: next_model_def)

end
